theory Spec2Isabelle
  imports Main
begin

section \<open>JavaScript values, exceptions and the observable effects\<close>

text \<open>
  The supervisor is a Node.js module (\<^verbatim>\<open>index.js\<close>). Its objects are dynamically typed,
  so values that the code tests for truthiness, or that come out of \<^verbatim>\<open>JSON.parse\<close>, are
  modelled by a datatype of JavaScript values. Numbers are kept as integers: the code
  only tests them for truthiness. The property list of \<open>JObj\<close> holds the own properties
  of the object, each key once. Strings are lists of characters; a character stands
  for one code unit below 256.
\<close>

datatype jsval =
    JUndefined
  | JNull
  | JBool bool
  | JNum int
  | JStr string
  | JArr "jsval list"
  | JObj "(string \<times> jsval) list"

text \<open>JavaScript's \<^verbatim>\<open>ToBoolean\<close>, as used by \<^verbatim>\<open>if(x)\<close>, \<^verbatim>\<open>!x\<close> and \<^verbatim>\<open>x && y\<close>.\<close>

fun truthy :: "jsval \<Rightarrow> bool" where
  "truthy JUndefined = False"
| "truthy JNull = False"
| "truthy (JBool b) = b"
| "truthy (JNum n) = (n \<noteq> 0)"
| "truthy (JStr s) = (s \<noteq> [])"
| "truthy (JArr xs) = True"
| "truthy (JObj kvs) = True"

text \<open>An optional string property: absent is \<^verbatim>\<open>undefined\<close>.\<close>

definition str_val :: "string option \<Rightarrow> jsval" where
  "str_val so = (case so of None \<Rightarrow> JUndefined | Some s \<Rightarrow> JStr s)"

text \<open>The exceptions that the runtime can throw inside the module's code.\<close>

datatype exn =
    SyntaxError
  | TypeError
  | ReferenceError string
  | Error string

text \<open>
  How a piece of the module's code ends: it returns (\<open>Completed\<close>); or it throws an
  exception to the caller of the exported function (\<open>Thrown\<close>); or it throws an exception
  inside a callback that the event loop runs, where no handler of the module catches it
  (\<open>Uncaught\<close>).
\<close>

datatype outcome = Completed | Thrown exn | Uncaught exn

text \<open>
  The callback given to \<^verbatim>\<open>start\<close> is code of the caller. The model does not look inside
  it: a call of it is recorded as an effect. \<open>DefaultCb\<close> is the callback that \<^verbatim>\<open>start\<close>
  installs when the caller gave none: \<^verbatim>\<open>(err) => { if(err) console.error(err) }\<close>.
\<close>

datatype callback = UserCb nat | DefaultCb

text \<open>The options object handed to \<^verbatim>\<open>child_process.spawn\<close> and \<^verbatim>\<open>child_process.fork\<close>.\<close>

record spawn_opts =
  windowsHide :: "bool option"
  silent :: "bool option"
  detached :: bool
  opt_cwd :: "string option"
  opt_env :: "(string \<times> string) list option"

text \<open>
  The process handle returned by \<^verbatim>\<open>child_process.spawn\<close> or \<^verbatim>\<open>child_process.fork\<close>, identified
  by the call that made it. A launch can fail in two ways: the call itself throws (see
  \<open>proc_spawn\<close> and \<open>proc_fork\<close> below), or it returns a handle and the failure is reported
  later through the handle's \<^verbatim>\<open>error\<close> event.
\<close>

datatype child_process =
    Spawned string "jsval list" spawn_opts
  | Forked jsval "jsval list" spawn_opts

text \<open>
  Everything the module does to the outside world, in the order it happens. \<open>StopCall i\<close>
  and \<open>RestartCall i\<close> record that \<^verbatim>\<open>stop\<close> or \<^verbatim>\<open>restart\<close> was called on the entry at index
  \<open>i\<close> of the registry.
\<close>

datatype effect =
    Callback callback jsval
  | ConsoleLog jsval
  | ConsoleError jsval
  | AppendFile string string
  | Launch child_process
  | StopCall nat
  | RestartCall nat

text \<open>
  The closure variables \<^verbatim>\<open>op\<close> and \<^verbatim>\<open>er\<close> of \<^verbatim>\<open>captureOutput\<close>: the pending fragment of the
  normal and of the error stream. The function \<^verbatim>\<open>flush\<close> that \<^verbatim>\<open>captureOutput\<close> returns is a
  closure over them, so the property \<^verbatim>\<open>pi.flush\<close> is modelled by the captured variables.
\<close>

record capture =
  op :: string
  er :: string

text \<open>
  The process information object \<^verbatim>\<open>pi\<close>. The same shape serves for the object the
  caller passes to \<^verbatim>\<open>start\<close> and for the entry that \<^verbatim>\<open>start\<close> builds and stores; a property
  that is not set is \<open>None\<close> (or \<open>JUndefined\<close>). \<open>x_script\<close> is the property \<^verbatim>\<open>_script\<close>.
\<close>

record pinfo =
  name :: "string option"
  script :: "string option"
  cwd :: "string option"
  log :: "string option"
  restartAt :: jsval
  cb :: "callback option"
  args :: "jsval list option"
  env :: "(string \<times> string) list option"
  x_script :: jsval
  child :: "child_process option"
  flush :: "capture option"

text \<open>
  The module state: the registry \<^verbatim>\<open>REG\<close>, the shutdown hook \<^verbatim>\<open>ONSTOPPING\<close> (an opaque
  function of the caller, named by a number) and the effects so far.
\<close>

record state =
  REG :: "pinfo list"
  ONSTOPPING :: "nat option"
  effects :: "effect list"

definition emit :: "effect list \<Rightarrow> state \<Rightarrow> state" where
  "emit es st = st\<lparr>effects := effects st @ es\<rparr>"

section \<open>Output capture\<close>

subsection \<open>The string primitives \<^verbatim>\<open>split\<close> and \<^verbatim>\<open>trim\<close>\<close>

definition is_nl :: "char \<Rightarrow> bool" where
  "is_nl c = (c = CHR 0x0A \<or> c = CHR 0x0D)"

text \<open>
  \<^verbatim>\<open>f.split(/[\n\r]+/)\<close>. The flag says that the character before was a separator, so
  that a run of separators ends one segment only. The head of the result is the segment
  that the characters read so far belong to.
\<close>

fun split_from :: "bool \<Rightarrow> string \<Rightarrow> string list" where
  "split_from insep [] = [[]]"
| "split_from insep (c # cs) =
     (if is_nl c then (if insep then split_from True cs else [] # split_from True cs)
      else (case split_from False cs of
              [] \<Rightarrow> [[c]]
            | seg # segs \<Rightarrow> (c # seg) # segs))"

definition split_nl :: "string \<Rightarrow> string list" where
  "split_nl f = split_from False f"

text \<open>
  \<^verbatim>\<open>String.prototype.trim\<close>: white space and line terminators are removed at both ends.
  Of the characters that JavaScript counts as such, these are the ones below 256.
\<close>

definition js_ws :: "char \<Rightarrow> bool" where
  "js_ws c = (c = CHR 0x09 \<or> c = CHR 0x0A \<or> c = CHR 0x0B \<or> c = CHR 0x0C \<or> c = CHR 0x0D
              \<or> c = CHR 0x20 \<or> c = CHR 0xA0)"

definition trim :: "string \<Rightarrow> string" where
  "trim s = rev (dropWhile js_ws (rev (dropWhile js_ws s)))"

subsection \<open>\<^verbatim>\<open>out\<close>, \<^verbatim>\<open>show_lines_1\<close>, \<^verbatim>\<open>flush\<close> and the data handlers\<close>

text \<open>
  \<^verbatim>\<open>out(pi, line, iserr)\<close>. With a log file the line is handed to \<^verbatim>\<open>fs.appendFile\<close> and \<^verbatim>\<open>out\<close>
  returns; the completion callback of the append runs later (\<open>appendFile_done\<close> below).
\<close>

definition out :: "pinfo \<Rightarrow> string \<Rightarrow> bool \<Rightarrow> effect list" where
  "out p line iserr =
     (if truthy (str_val (log p))
      then (case log p of None \<Rightarrow> [] | Some file \<Rightarrow> [AppendFile file (line @ [CHR 0x0A])])
      else if iserr then [ConsoleError (JStr line)]
      else [ConsoleLog (JStr line)])"

text \<open>The loop \<^verbatim>\<open>for(let i = 0;i < lines.length-1;i++) out(pi, lines[i], iserr)\<close>.\<close>

fun out_loop :: "pinfo \<Rightarrow> string list \<Rightarrow> bool \<Rightarrow> nat \<Rightarrow> nat \<Rightarrow> effect list" where
  "out_loop p lines iserr i 0 = []"
| "out_loop p lines iserr i (Suc n) = out p (lines ! i) iserr @ out_loop p lines iserr (Suc i) n"

definition show_lines_1 :: "pinfo \<Rightarrow> string \<Rightarrow> bool \<Rightarrow> effect list \<times> string" where
  "show_lines_1 p f iserr =
     (if f = [] then ([], f)
      else (let lines = split_nl f
            in (out_loop p lines iserr 0 (length lines - 1), lines ! (length lines - 1))))"

definition captureOutput_flush :: "pinfo \<Rightarrow> capture \<Rightarrow> effect list \<times> capture" where
  "captureOutput_flush p c =
     ((if op c \<noteq> [] \<and> trim (op c) \<noteq> [] then out p (trim (op c)) False else [])
      @ (if er c \<noteq> [] \<and> trim (er c) \<noteq> [] then out p (trim (er c)) True else []),
      c\<lparr>op := [], er := []\<rparr>)"

definition on_stdout_data :: "pinfo \<Rightarrow> capture \<Rightarrow> string \<Rightarrow> effect list \<times> capture" where
  "on_stdout_data p c d =
     (case show_lines_1 p (op c @ d) False of (es, rest) \<Rightarrow> (es, c\<lparr>op := rest\<rparr>))"

definition on_stderr_data :: "pinfo \<Rightarrow> capture \<Rightarrow> string \<Rightarrow> effect list \<times> capture" where
  "on_stderr_data p c d =
     (case show_lines_1 p (er c @ d) True of (es, rest) \<Rightarrow> (es, c\<lparr>er := rest\<rparr>))"

text \<open>\<^verbatim>\<open>captureOutput(pi)\<close> registers the two data handlers and returns \<^verbatim>\<open>flush\<close>.\<close>

definition captureOutput :: "pinfo \<Rightarrow> capture" where
  "captureOutput p = \<lparr>op = [], er = []\<rparr>"

text \<open>A run of chunks arriving on the normal stream, one \<^verbatim>\<open>data\<close> event each.\<close>

fun feed_stdout :: "pinfo \<Rightarrow> capture \<Rightarrow> string list \<Rightarrow> effect list \<times> capture" where
  "feed_stdout p c [] = ([], c)"
| "feed_stdout p c (d # ds) =
     (case on_stdout_data p c d of (es, c') \<Rightarrow>
        (case feed_stdout p c' ds of (es', c'') \<Rightarrow> (es @ es', c'')))"

text \<open>
  The completion callback that \<^verbatim>\<open>out\<close> passes to \<^verbatim>\<open>fs.appendFile\<close>:
  \<^verbatim>\<open>(err) => { if(err) { console.error(m); console.error(err) } }\<close>.
  Reading an identifier looks it up in the scope chain and throws a \<^verbatim>\<open>ReferenceError\<close> when
  no binding exists. The bindings visible in the callback are its own parameter, the
  parameters of \<^verbatim>\<open>out\<close>, the variables and functions of \<^verbatim>\<open>captureOutput\<close>, the declarations
  of the module and the names of Node's module wrapper and global object that the module
  uses. A binding whose value is a function or a module object is represented by an empty
  object: only its presence matters here.
\<close>

definition lookup_ident :: "(string \<times> jsval) list \<Rightarrow> string \<Rightarrow> exn + jsval" where
  "lookup_ident scope x = (case map_of scope x of None \<Rightarrow> Inl (ReferenceError x) | Some v \<Rightarrow> Inr v)"

definition module_scope :: "(string \<times> jsval) list" where
  "module_scope = map (\<lambda>x. (x, JObj []))
     [''fs'', ''path'', ''proc'', ''REG'', ''ONSTOPPING'', ''start'', ''restartByName'',
      ''stopByName'', ''stopall'', ''onstopping'', ''restart'', ''stop'', ''getScriptHandler'',
      ''launchPythonProcess'', ''launchJSProcess'', ''captureOutput'', ''handleExit'',
      ''module'', ''exports'', ''require'', ''console'']"

definition appendFile_scope :: "capture \<Rightarrow> string \<Rightarrow> bool \<Rightarrow> jsval \<Rightarrow> (string \<times> jsval) list" where
  "appendFile_scope c line iserr err =
     [(''err'', err), (''pi'', JObj []), (''line'', JStr line), (''iserr'', JBool iserr),
      (''op'', JStr (op c)), (''er'', JStr (er c)), (''flush'', JObj []),
      (''show_lines_1'', JObj []), (''out'', JObj [])] @ module_scope"

definition appendFile_done :: "capture \<Rightarrow> string \<Rightarrow> bool \<Rightarrow> jsval \<Rightarrow> effect list \<times> outcome" where
  "appendFile_done c line iserr err =
     (if truthy err
      then (case lookup_ident (appendFile_scope c line iserr err) ''m'' of
              Inl e \<Rightarrow> ([], Uncaught e)
            | Inr m \<Rightarrow> ([ConsoleError m, ConsoleError err], Completed))
      else ([], Completed))"

section \<open>Exit handling\<close>

text \<open>\<^verbatim>\<open>cb(v)\<close> for the callback of \<^verbatim>\<open>start\<close>; the default callback prints a truthy error.\<close>

definition call_cb :: "callback \<Rightarrow> jsval \<Rightarrow> effect list" where
  "call_cb k v =
     Callback k v # (case k of DefaultCb \<Rightarrow> (if truthy v then [ConsoleError v] else [])
                             | UserCb n \<Rightarrow> [])"

text \<open>\<^verbatim>\<open>pi.flush && pi.flush()\<close> and \<^verbatim>\<open>pi.cb && pi.cb(v)\<close>.\<close>

definition pi_flush :: "pinfo \<Rightarrow> effect list \<times> pinfo" where
  "pi_flush p =
     (case flush p of
        None \<Rightarrow> ([], p)
      | Some c \<Rightarrow> (case captureOutput_flush p c of (es, c') \<Rightarrow> (es, p\<lparr>flush := Some c'\<rparr>)))"

definition pi_cb :: "pinfo \<Rightarrow> jsval \<Rightarrow> effect list" where
  "pi_cb p v = (case cb p of None \<Rightarrow> [] | Some k \<Rightarrow> call_cb k v)"

text \<open>The three listeners that \<^verbatim>\<open>handleExit\<close> registers on the child.\<close>

definition on_error :: "pinfo \<Rightarrow> jsval \<Rightarrow> effect list \<times> pinfo" where
  "on_error p err = (case pi_flush p of (es, p') \<Rightarrow> (es @ pi_cb p' err, p'))"

definition on_done_1 :: "pinfo \<Rightarrow> jsval \<Rightarrow> jsval \<Rightarrow> effect list \<times> pinfo" where
  "on_done_1 p code signal =
     (case pi_flush p of (es, p') \<Rightarrow>
        (es @ (if truthy code \<or> truthy signal then pi_cb p' (JStr ''Exited with error'')
               else pi_cb p' JUndefined), p'))"

text \<open>
  The events of a child process that the module listens to: data on the two streams and
  the three terminal events. \<^verbatim>\<open>exit\<close> and \<^verbatim>\<open>close\<close> carry the exit code and the signal.
\<close>

datatype child_event =
    StdoutData string
  | StderrData string
  | ErrorEvent jsval
  | ExitEvent jsval jsval
  | CloseEvent jsval jsval

fun terminal :: "child_event \<Rightarrow> bool" where
  "terminal (StdoutData d) = False"
| "terminal (StderrData d) = False"
| "terminal (ErrorEvent err) = True"
| "terminal (ExitEvent code signal) = True"
| "terminal (CloseEvent code signal) = True"

fun on_event :: "pinfo \<Rightarrow> child_event \<Rightarrow> effect list \<times> pinfo" where
  "on_event p (StdoutData d) =
     (case flush p of
        None \<Rightarrow> ([], p)
      | Some c \<Rightarrow> (case on_stdout_data p c d of (es, c') \<Rightarrow> (es, p\<lparr>flush := Some c'\<rparr>)))"
| "on_event p (StderrData d) =
     (case flush p of
        None \<Rightarrow> ([], p)
      | Some c \<Rightarrow> (case on_stderr_data p c d of (es, c') \<Rightarrow> (es, p\<lparr>flush := Some c'\<rparr>)))"
| "on_event p (ErrorEvent err) = on_error p err"
| "on_event p (ExitEvent code signal) = on_done_1 p code signal"
| "on_event p (CloseEvent code signal) = on_done_1 p code signal"

text \<open>A sequence of events delivered to one entry, in order.\<close>

fun on_events :: "pinfo \<Rightarrow> child_event list \<Rightarrow> effect list \<times> pinfo" where
  "on_events p [] = ([], p)"
| "on_events p (ev # evs) =
     (case on_event p ev of (es, p') \<Rightarrow>
        (case on_events p' evs of (es', p'') \<Rightarrow> (es @ es', p'')))"

fun is_callback :: "effect \<Rightarrow> bool" where
  "is_callback (Callback k v) = True"
| "is_callback (ConsoleLog v) = False"
| "is_callback (ConsoleError v) = False"
| "is_callback (AppendFile file d) = False"
| "is_callback (Launch ch) = False"
| "is_callback (StopCall i) = False"
| "is_callback (RestartCall i) = False"

definition callbacks :: "effect list \<Rightarrow> effect list" where
  "callbacks es = filter is_callback es"

section \<open>Starting a process\<close>

text \<open>
  What \<^verbatim>\<open>start\<close> uses of Node's library and of the file system, as parameters:
  \<^item> \<open>readFile\<close>: the result that \<^verbatim>\<open>fs.readFile\<close> hands to its callback, an error or the
    contents of the file;
  \<^item> \<open>JSON_parse\<close>: \<^verbatim>\<open>JSON.parse\<close>, where \<open>None\<close> stands for the \<^verbatim>\<open>SyntaxError\<close> it throws on
    text that is not JSON;
  \<^item> \<open>path_join\<close> and \<open>path_extname\<close>: \<^verbatim>\<open>path.join\<close> and \<^verbatim>\<open>path.extname\<close> on strings;
  \<^item> \<open>proc_spawn\<close> and \<open>proc_fork\<close>: whether \<^verbatim>\<open>child_process.spawn(command, args, opts)\<close> and
    \<^verbatim>\<open>child_process.fork(modulePath, args, opts)\<close> throw instead of returning a handle, as
    they do on an argument they refuse (a string with a NUL character) and on some
    errors of the operating system; \<open>None\<close> stands for a returned handle.
\<close>

record world =
  readFile :: "string \<Rightarrow> jsval + string"
  JSON_parse :: "string \<Rightarrow> jsval option"
  path_join :: "string \<Rightarrow> string \<Rightarrow> string"
  path_extname :: "string \<Rightarrow> string"
  proc_spawn :: "string \<Rightarrow> jsval list \<Rightarrow> spawn_opts \<Rightarrow> exn option"
  proc_fork :: "jsval \<Rightarrow> jsval list \<Rightarrow> spawn_opts \<Rightarrow> exn option"

text \<open>
  \<^verbatim>\<open>obj.main\<close> on the value that \<^verbatim>\<open>JSON.parse\<close> returned: a property read on \<^verbatim>\<open>null\<close> throws a
  \<^verbatim>\<open>TypeError\<close>, on any other value without that property it gives \<^verbatim>\<open>undefined\<close>.
\<close>

fun get_main :: "jsval \<Rightarrow> exn + jsval" where
  "get_main JUndefined = Inl TypeError"
| "get_main JNull = Inl TypeError"
| "get_main (JObj kvs) = Inr (case map_of kvs ''main'' of None \<Rightarrow> JUndefined | Some v \<Rightarrow> v)"
| "get_main (JBool b) = Inr JUndefined"
| "get_main (JNum n) = Inr JUndefined"
| "get_main (JStr s) = Inr JUndefined"
| "get_main (JArr xs) = Inr JUndefined"

text \<open>
  \<^verbatim>\<open>get_script_1(pi, cb)\<close>. \<open>Inr v\<close>: the continuation \<^verbatim>\<open>cb\<close> is called with \<open>v\<close>. \<open>Inl e\<close>: the
  exception \<open>e\<close> is thrown inside the callback of \<^verbatim>\<open>fs.readFile\<close>. That callback runs from the
  event loop after \<^verbatim>\<open>get_script_1\<close> has returned, so the \<^verbatim>\<open>try\<close> block around the call of
  \<^verbatim>\<open>fs.readFile\<close> is no longer active and nothing catches \<open>e\<close>. The \<^verbatim>\<open>catch\<close> branch is reached
  only when \<^verbatim>\<open>path.join\<close> throws, which it does when \<^verbatim>\<open>pi.cwd\<close> is not a string.
\<close>

definition get_script_1 :: "world \<Rightarrow> pinfo \<Rightarrow> exn + jsval" where
  "get_script_1 w p =
     (if truthy (str_val (script p)) then Inr (str_val (script p))
      else (case cwd p of
              None \<Rightarrow> Inr JUndefined
            | Some dir \<Rightarrow>
                (case readFile w (path_join w dir ''package.json'') of
                   Inl err \<Rightarrow> Inr JUndefined
                 | Inr data \<Rightarrow>
                     (case JSON_parse w data of
                        None \<Rightarrow> Inl SyntaxError
                      | Some obj \<Rightarrow> get_main obj))))"

datatype handler = LaunchJSProcess | LaunchPythonProcess

definition handlers :: "(string \<times> handler) list" where
  "handlers = [(''.js'', LaunchJSProcess), (''.py'', LaunchPythonProcess)]"

text \<open>
  \<^verbatim>\<open>getScriptHandler(script)\<close>. \<^verbatim>\<open>path.extname\<close> accepts strings only and throws a \<^verbatim>\<open>TypeError\<close> on
  any other value. Its result is empty or starts with a dot, so that \<^verbatim>\<open>handlers[ext]\<close> is a
  lookup in the literal table. \<open>None\<close> is the result \<^verbatim>\<open>undefined\<close>.
\<close>

definition getScriptHandler :: "world \<Rightarrow> jsval \<Rightarrow> exn + handler option" where
  "getScriptHandler w s =
     (case s of
        JStr path \<Rightarrow>
          (let ext = path_extname w path
           in Inr (if ext \<noteq> [] then map_of handlers ext else None))
      | _ \<Rightarrow> Inl TypeError)"

text \<open>
  The two launchers. Each returns the effects, the entry as it leaves it, and the
  exception when the call of \<^verbatim>\<open>spawn\<close> or \<^verbatim>\<open>fork\<close> throws. \<^verbatim>\<open>pi.args\<close> is set before that call.
  When the call returns, \<^verbatim>\<open>child\<close> and \<^verbatim>\<open>flush\<close> are set and \<^verbatim>\<open>handleExit(pi)\<close> registers the
  listeners modelled by \<open>on_event\<close>; when it throws, the rest of the launcher does not
  run.
\<close>

definition launchPythonProcess :: "world \<Rightarrow> pinfo \<Rightarrow> effect list \<times> pinfo \<times> exn option" where
  "launchPythonProcess w p =
     (let opts0 = \<lparr>windowsHide = Some False, silent = None, detached = False,
                   opt_cwd = None, opt_env = None\<rparr>;
          opts1 = (if truthy (str_val (cwd p)) then opts0\<lparr>opt_cwd := cwd p\<rparr> else opts0);
          opts = (case env p of None \<Rightarrow> opts1 | Some e \<Rightarrow> opts1\<lparr>opt_env := Some e\<rparr>);
          p1 = (case args p of
                  None \<Rightarrow> p\<lparr>args := Some [x_script p]\<rparr>
                | Some a \<Rightarrow> p\<lparr>args := Some ([x_script p] @ a)\<rparr>);
          a1 = (case args p1 of None \<Rightarrow> [] | Some a \<Rightarrow> a)
      in case proc_spawn w ''python'' a1 opts of
           Some ex \<Rightarrow> ([], p1, Some ex)
         | None \<Rightarrow>
             (let ch = Spawned ''python'' a1 opts;
                  p2 = p1\<lparr>child := Some ch\<rparr>;
                  p3 = p2\<lparr>flush := Some (captureOutput p2)\<rparr>
              in ([Launch ch], p3, None)))"

definition launchJSProcess :: "world \<Rightarrow> pinfo \<Rightarrow> effect list \<times> pinfo \<times> exn option" where
  "launchJSProcess w p =
     (let opts0 = \<lparr>windowsHide = None, silent = Some True, detached = False,
                   opt_cwd = None, opt_env = None\<rparr>;
          opts1 = (if truthy (str_val (cwd p)) then opts0\<lparr>opt_cwd := cwd p\<rparr> else opts0);
          opts = (case env p of None \<Rightarrow> opts1 | Some e \<Rightarrow> opts1\<lparr>opt_env := Some e\<rparr>);
          p1 = (case args p of None \<Rightarrow> p\<lparr>args := Some []\<rparr> | Some a \<Rightarrow> p);
          a1 = (case args p1 of None \<Rightarrow> [] | Some a \<Rightarrow> a)
      in case proc_fork w (x_script p1) a1 opts of
           Some ex \<Rightarrow> ([], p1, Some ex)
         | None \<Rightarrow>
             (let ch = Forked (x_script p1) a1 opts;
                  p2 = p1\<lparr>child := Some ch\<rparr>;
                  p3 = p2\<lparr>flush := Some (captureOutput p2)\<rparr>
              in ([Launch ch], p3, None)))"

fun run_handler :: "world \<Rightarrow> handler \<Rightarrow> pinfo \<Rightarrow> effect list \<times> pinfo \<times> exn option" where
  "run_handler w LaunchJSProcess p = launchJSProcess w p"
| "run_handler w LaunchPythonProcess p = launchPythonProcess w p"

text \<open>
  The object that \<^verbatim>\<open>start\<close> builds from the caller's one: it copies \<^verbatim>\<open>name\<close>, \<^verbatim>\<open>script\<close>, \<^verbatim>\<open>cwd\<close>,
  \<^verbatim>\<open>log\<close> and \<^verbatim>\<open>restartAt\<close>, and sets \<^verbatim>\<open>cb\<close>. No other property of the caller's object is copied.
\<close>

definition copy_pi :: "pinfo \<Rightarrow> callback \<Rightarrow> pinfo" where
  "copy_pi p0 k =
     \<lparr>name = name p0, script = script p0, cwd = cwd p0, log = log p0,
      restartAt = restartAt p0, cb = Some k, args = None, env = None,
      x_script = JUndefined, child = None, flush = None\<rparr>"

definition msg_no_info :: string where
  "msg_no_info = ''Cannot start process without any information''"

definition msg_no_script_or_cwd :: string where
  "msg_no_script_or_cwd =
     ''Cannot start process without '' @ [CHR 0x27] @ ''script'' @ [CHR 0x27] @ '' or ''
     @ [CHR 0x27] @ ''cwd'' @ [CHR 0x27]"

definition msg_no_script :: string where
  "msg_no_script = ''No script given to run''"

definition msg_dont_know :: "string \<Rightarrow> string" where
  "msg_dont_know path = ''Don'' @ [CHR 0x27] @ ''t know how to start '' @ path"

text \<open>\<^verbatim>\<open>if(!cb) cb = (err) => { if(err) console.error(err) }\<close>\<close>

definition effective_cb :: "callback option \<Rightarrow> callback" where
  "effective_cb cbo = (case cbo of None \<Rightarrow> DefaultCb | Some c \<Rightarrow> c)"

text \<open>
  Where an exception of the handler ends up. With a script given, \<^verbatim>\<open>get_script_1\<close> calls its
  continuation at once, inside the call of \<^verbatim>\<open>start\<close>: the exception reaches the caller of
  \<^verbatim>\<open>start\<close>. Otherwise the continuation runs in the callback of \<^verbatim>\<open>fs.readFile\<close>.
\<close>

definition raised :: "pinfo \<Rightarrow> exn \<Rightarrow> outcome" where
  "raised p0 ex = (if truthy (str_val (script p0)) then Thrown ex else Uncaught ex)"

text \<open>
  \<^verbatim>\<open>start(pi, cb)\<close>, with the continuation of \<^verbatim>\<open>get_script_1\<close> run to its end. The entry is
  pushed on \<^verbatim>\<open>REG\<close> before the handler runs; the handler then changes the pushed object, which
  is the last element of \<^verbatim>\<open>REG\<close>. When the handler throws, \<^verbatim>\<open>cb()\<close> is not reached. The text
  \<^verbatim>\<open>${script}\<close> of the last message is the script itself, a string at that point.
\<close>

definition start :: "world \<Rightarrow> pinfo option \<Rightarrow> callback option \<Rightarrow> state \<Rightarrow> state \<times> outcome" where
  "start w pio cbo st =
     (let k = effective_cb cbo
      in case pio of
           None \<Rightarrow> (emit (call_cb k (JStr msg_no_info)) st, Completed)
         | Some p0 \<Rightarrow>
             if \<not> truthy (str_val (script p0)) \<and> \<not> truthy (str_val (cwd p0))
             then (emit (call_cb k (JStr msg_no_script_or_cwd)) st, Completed)
             else (case get_script_1 w (copy_pi p0 k) of
                     Inl e \<Rightarrow> (st, Uncaught e)
                   | Inr s \<Rightarrow>
                       (let p = (copy_pi p0 k)\<lparr>x_script := s\<rparr>
                        in if \<not> truthy s
                           then (emit (call_cb k (JStr msg_no_script)) st, Completed)
                           else (case getScriptHandler w s of
                                   Inl e \<Rightarrow> (st, Uncaught e)
                                 | Inr None \<Rightarrow>
                                     (emit (call_cb k (JStr (msg_dont_know
                                        (case s of JStr path \<Rightarrow> path | _ \<Rightarrow> [])))) st,
                                      Completed)
                                 | Inr (Some h) \<Rightarrow>
                                     (let st1 = st\<lparr>REG := REG st @ [p]\<rparr>;
                                          last_i = length (REG st1) - 1
                                      in case run_handler w h (REG st1 ! last_i) of
                                           (es, p', thrown) \<Rightarrow>
                                             (let st2 = st1\<lparr>REG := (REG st1)[last_i := p']\<rparr>
                                              in case thrown of
                                                   Some ex \<Rightarrow> (emit es st2, raised p0 ex)
                                                 | None \<Rightarrow>
                                                     (emit (es @ call_cb k JUndefined) st2,
                                                      Completed)))))))"

section \<open>The registry operations\<close>

text \<open>
  \<^verbatim>\<open>function restart(pi) { }\<close> and \<^verbatim>\<open>function stop(pi) { }\<close> have empty bodies. The model
  records the call and changes nothing else.
\<close>

definition restart :: "pinfo \<Rightarrow> nat \<Rightarrow> state \<Rightarrow> state" where
  "restart p i st = emit [RestartCall i] st"

definition stop :: "pinfo \<Rightarrow> nat \<Rightarrow> state \<Rightarrow> state" where
  "stop p i st = emit [StopCall i] st"

text \<open>\<^verbatim>\<open>Array.prototype.forEach\<close>: the function is applied to each element and its index.\<close>

fun forEach :: "('a \<Rightarrow> nat \<Rightarrow> 's \<Rightarrow> 's) \<Rightarrow> 'a list \<Rightarrow> nat \<Rightarrow> 's \<Rightarrow> 's" where
  "forEach f [] i s = s"
| "forEach f (x # xs) i s = forEach f xs (Suc i) (f x i s)"

text \<open>The argument \<^verbatim>\<open>name\<close> is a string or absent; \<^verbatim>\<open>===\<close> compares without conversion.\<close>

definition restartByName :: "string option \<Rightarrow> state \<Rightarrow> state" where
  "restartByName n st =
     forEach (\<lambda>p i s. if name p = n then restart p i s else s) (REG st) 0 st"

definition stopByName :: "string option \<Rightarrow> state \<Rightarrow> state" where
  "stopByName n st =
     forEach (\<lambda>p i s. if name p = n then stop p i s else s) (REG st) 0 st"

definition stopall :: "state \<Rightarrow> state" where
  "stopall st = forEach stop (REG st) 0 st"

definition onstopping :: "nat option \<Rightarrow> state \<Rightarrow> state" where
  "onstopping hook st = st\<lparr>ONSTOPPING := hook\<rparr>"

text \<open>An event of the child of the entry at index \<open>i\<close> reaches that entry's listeners.\<close>

definition deliver :: "nat \<Rightarrow> child_event \<Rightarrow> state \<Rightarrow> state" where
  "deliver i ev st =
     (if i < length (REG st)
      then (case on_event (REG st ! i) ev of
              (es, p') \<Rightarrow> emit es (st\<lparr>REG := (REG st)[i := p']\<rparr>))
      else st)"

text \<open>
  The exported functions, and the delivery of a child's event, as the steps of a run of
  the supervisor. Each step comes with the file system and library it runs against.
\<close>

datatype operation =
    Start "pinfo option" "callback option"
  | Restart "string option"
  | Stop "string option"
  | Stopall
  | Onstopping "nat option"
  | ChildEvent nat child_event

fun step :: "world \<Rightarrow> operation \<Rightarrow> state \<Rightarrow> state" where
  "step w (Start pio cbo) st = fst (start w pio cbo st)"
| "step w (Restart n) st = restartByName n st"
| "step w (Stop n) st = stopByName n st"
| "step w Stopall st = stopall st"
| "step w (Onstopping hook) st = onstopping hook st"
| "step w (ChildEvent i ev) st = deliver i ev st"

fun run :: "(world \<times> operation) list \<Rightarrow> state \<Rightarrow> state" where
  "run [] st = st"
| "run ((w, x) # xs) st = run xs (step w x st)"

definition init_state :: state where
  "init_state = \<lparr>REG = [], ONSTOPPING = None, effects = []\<rparr>"

text \<open>
  A concrete library for the examples: the POSIX \<^verbatim>\<open>path.extname\<close> (the extension starts at
  the last dot of the last path component, unless that dot is the component's first
  character or the component is \<^verbatim>\<open>..\<close>), \<^verbatim>\<open>path.join\<close> on a plain directory name, \<^verbatim>\<open>spawn\<close> and
  \<^verbatim>\<open>fork\<close> that throw a \<^verbatim>\<open>TypeError\<close> on a string argument with a NUL character and return a
  handle otherwise, and a file system and parser given by the example.
\<close>

fun has_nul :: "jsval \<Rightarrow> bool" where
  "has_nul (JStr s) = (CHR 0x00 \<in> set s)"
| "has_nul JUndefined = False"
| "has_nul JNull = False"
| "has_nul (JBool b) = False"
| "has_nul (JNum n) = False"
| "has_nul (JArr xs) = False"
| "has_nul (JObj kvs) = False"

definition refuse_nul :: "jsval list \<Rightarrow> exn option" where
  "refuse_nul xs = (if filter has_nul xs = [] then None else Some TypeError)"

definition base_name :: "string \<Rightarrow> string" where
  "base_name path =
     rev (takeWhile (\<lambda>c. c \<noteq> CHR ''/'') (dropWhile (\<lambda>c. c = CHR ''/'') (rev path)))"

definition posix_extname :: "string \<Rightarrow> string" where
  "posix_extname path =
     (let b = base_name path;
          e = rev (takeWhile (\<lambda>c. c \<noteq> CHR ''.'') (rev b))
      in if CHR ''.'' \<notin> set b then []
         else if length e + 1 = length b then []
         else if b = ''..'' then []
         else CHR ''.'' # e)"

definition example_world :: "(string \<Rightarrow> jsval + string) \<Rightarrow> (string \<Rightarrow> jsval option) \<Rightarrow> world" where
  "example_world rd parse =
     \<lparr>readFile = rd, JSON_parse = parse,
      path_join = (\<lambda>dir file. dir @ ''/'' @ file), path_extname = posix_extname,
      proc_spawn = (\<lambda>command a opts. refuse_nul (JStr command # a)),
      proc_fork = (\<lambda>modulePath a opts. refuse_nul (modulePath # a))\<rparr>"

text \<open>The object \<^verbatim>\<open>{}\<close>, from which the examples build the argument of \<^verbatim>\<open>start\<close>.\<close>

definition empty_pi :: pinfo where
  "empty_pi =
     \<lparr>name = None, script = None, cwd = None, log = None, restartAt = JUndefined,
      cb = None, args = None, env = None, x_script = JUndefined, child = None,
      flush = None\<rparr>"

text \<open>A file system without any file, and one whose files all hold the given text.\<close>

definition no_files :: "string \<Rightarrow> jsval + string" where
  "no_files file = Inl (JObj [(''code'', JStr ''ENOENT'')])"

definition files_with :: "string \<Rightarrow> string \<Rightarrow> jsval + string" where
  "files_with text file = Inr text"

fun is_launch :: "effect \<Rightarrow> bool" where
  "is_launch (Launch ch) = True"
| "is_launch (Callback k v) = False"
| "is_launch (ConsoleLog v) = False"
| "is_launch (ConsoleError v) = False"
| "is_launch (AppendFile file d) = False"
| "is_launch (StopCall i) = False"
| "is_launch (RestartCall i) = False"

definition launches :: "effect list \<Rightarrow> effect list" where
  "launches es = filter is_launch es"

section \<open>Properties of the output capture\<close>

lemma split_from_ne: "split_from b f \<noteq> []"
  by (induction f arbitrary: b) (auto split: list.splits)

lemma split_nl_ne: "split_nl f \<noteq> []"
  by (simp add: split_nl_def split_from_ne)

text \<open>Inside a run of separators the split goes on after the run.\<close>

lemma split_from_True: "split_from True cs = split_from False (dropWhile is_nl cs)"
  by (induction cs) simp_all

text \<open>
  The split, read as the regular expression is matched: the segment up to the next
  separator, then the split of what follows the whole run of separators.
\<close>

lemma split_from_run:
  "split_from False s =
     (let seg = takeWhile (\<lambda>c. \<not> is_nl c) s; rest = dropWhile (\<lambda>c. \<not> is_nl c) s
      in if rest = [] then [seg] else seg # split_from False (dropWhile is_nl rest))"
proof (induction s)
  case Nil
  then show ?case by simp
next
  case (Cons c cs)
  show ?case
  proof (cases "is_nl c")
    case True
    then show ?thesis by (simp add: split_from_True)
  next
    case False
    then show ?thesis using Cons by (simp add: Let_def)
  qed
qed

text \<open>No segment holds a separator, and the segments together are the other characters.\<close>

lemma split_from_no_nl: "seg \<in> set (split_from b f) \<Longrightarrow> c \<in> set seg \<Longrightarrow> \<not> is_nl c"
proof (induction f arbitrary: b seg)
  case Nil
  then show ?case by simp
next
  case (Cons a f)
  show ?case
  proof (cases "is_nl a")
    case True
    with Cons.prems Cons.IH [of seg True] show ?thesis by (auto split: if_splits)
  next
    case False
    obtain x xs where sp: "split_from False f = x # xs"
      using split_from_ne [of False f] by (cases "split_from False f") auto
    with False Cons.prems have "seg = a # x \<or> seg \<in> set xs" by simp
    then show ?thesis
    proof
      assume "seg = a # x"
      with Cons.prems(2) have "c = a \<or> c \<in> set x" by simp
      then show ?thesis using False Cons.IH [of x False] sp by auto
    next
      assume "seg \<in> set xs"
      then show ?thesis using Cons.IH [of seg False] sp Cons.prems(2) by simp
    qed
  qed
qed

lemma concat_split_from: "concat (split_from b f) = filter (\<lambda>c. \<not> is_nl c) f"
proof (induction f arbitrary: b)
  case Nil
  then show ?case by simp
next
  case (Cons a f)
  obtain x xs where sp: "split_from False f = x # xs"
    using split_from_ne [of False f] by (cases "split_from False f") auto
  show ?case using Cons [of False] Cons [of True] sp by simp
qed

text \<open>The loop of \<^verbatim>\<open>show_lines_1\<close> emits the lines from index \<open>i\<close> on, one after the other.\<close>

lemma out_loop_eq:
  "i + n \<le> length lines \<Longrightarrow>
   out_loop p lines iserr i n = concat (map (\<lambda>l. out p l iserr) (take n (drop i lines)))"
proof (induction n arbitrary: i)
  case 0
  then show ?case by simp
next
  case (Suc n)
  then have "i < length lines" by simp
  then have "drop i lines = lines ! i # drop (Suc i) lines"
    by (simp add: Cons_nth_drop_Suc)
  with Suc show ?case by simp
qed

lemma show_lines_1_eq:
  "show_lines_1 p f iserr =
     (concat (map (\<lambda>l. out p l iserr) (butlast (split_nl f))), last (split_nl f))"
proof (cases "f = []")
  case True
  then show ?thesis by (simp add: show_lines_1_def split_nl_def)
next
  case False
  have ne: "split_nl f \<noteq> []" by (rule split_nl_ne)
  have a: "take (length (split_nl f) - 1) (split_nl f) = butlast (split_nl f)"
    by (simp add: butlast_conv_take)
  have b: "split_nl f ! (length (split_nl f) - 1) = last (split_nl f)"
    using ne by (simp add: last_conv_nth)
  show ?thesis using False a b by (simp add: show_lines_1_def Let_def out_loop_eq)
qed

lemma split_nl_ab: "split_nl ''ab'' = [''ab'']"
  by (simp add: split_nl_def is_nl_def)

lemma split_nl_abc_def:
  "split_nl (''abc'' @ [CHR 0x0A] @ ''def'' @ [CHR 0x0D, CHR 0x0A]) = [''abc'', ''def'', []]"
  by (simp add: split_nl_def is_nl_def)

lemma split_nl_ghi: "split_nl ''ghi'' = [''ghi'']"
  by (simp add: split_nl_def is_nl_def)

lemma trim_ghi: "trim ''ghi'' = ''ghi''"
  by (simp add: trim_def js_ws_def)

lemma trim_padded: "trim ('' ghi '' @ [CHR 0x0A]) = ''ghi''"
  by (simp add: trim_def js_ws_def)

lemma trim_blank: "trim [CHR 0x09, CHR 0x20] = []"
  by (simp add: trim_def js_ws_def)

text \<open>What \<^verbatim>\<open>out\<close> does with a line, by destination.\<close>

lemma out_explicit:
  "out p l b =
     (case log p of
        None \<Rightarrow> [if b then ConsoleError (JStr l) else ConsoleLog (JStr l)]
      | Some file \<Rightarrow>
          if file = [] then [if b then ConsoleError (JStr l) else ConsoleLog (JStr l)]
          else [AppendFile file (l @ [CHR 0x0A])])"
  by (simp add: out_def str_val_def split: option.splits)

text \<open>
  \<^verbatim>\<open>trim\<close> takes white space off both ends and nothing else: the string is white space,
  the trimmed string, white space; and a trimmed string that is not empty begins and ends
  with a character that is not white space.
\<close>

lemma trim_decomposition:
  "s = takeWhile js_ws s @ trim s @ rev (takeWhile js_ws (rev (dropWhile js_ws s)))"
proof -
  let ?t = "dropWhile js_ws s"
  have "rev ?t = takeWhile js_ws (rev ?t) @ dropWhile js_ws (rev ?t)" by simp
  then have "?t = rev (dropWhile js_ws (rev ?t)) @ rev (takeWhile js_ws (rev ?t))"
    by (metis rev_append rev_rev_ident)
  then have "?t = trim s @ rev (takeWhile js_ws (rev ?t))" by (simp add: trim_def)
  moreover have "s = takeWhile js_ws s @ ?t" by simp
  ultimately show ?thesis by metis
qed

lemma trim_ends:
  "trim s \<noteq> [] \<Longrightarrow> \<not> js_ws (hd (trim s)) \<and> \<not> js_ws (last (trim s))"
proof -
  assume ne: "trim s \<noteq> []"
  let ?t = "dropWhile js_ws s"
  let ?u = "dropWhile js_ws (rev ?t)"
  from ne have une: "?u \<noteq> []" by (simp add: trim_def)
  then have "\<not> js_ws (hd ?u)" by (rule hd_dropWhile)
  then have l: "\<not> js_ws (last (trim s))" using une by (simp add: trim_def last_rev)
  have tne: "?t \<noteq> []"
  proof
    assume a: "?t = []"
    from une show False unfolding a by simp
  qed
  then have h: "\<not> js_ws (hd ?t)" by (rule hd_dropWhile)
  have "?t = trim s @ rev (takeWhile js_ws (rev ?t))"
    using trim_decomposition [of s] by (metis same_append_eq takeWhile_dropWhile_id)
  then have "hd ?t = hd (trim s)" using ne by (metis hd_append2)
  with h l show ?thesis by simp
qed

text \<open>
  C6. The chunks \<^verbatim>\<open>"ab"\<close>, \<^verbatim>\<open>"c\ndef\r\n"\<close>, \<^verbatim>\<open>"ghi"\<close> arriving on the normal stream of a fresh
  capture emit the lines \<^verbatim>\<open>abc\<close> and \<^verbatim>\<open>def\<close>, in that order, and leave \<^verbatim>\<open>ghi\<close> pending; \<^verbatim>\<open>flush\<close>
  then emits \<^verbatim>\<open>ghi\<close> and clears the accumulator. Without a log file the lines go to the
  supervisor's standard output, with one each line is appended to it with a newline. In
  general a chunk is appended to the accumulator of its stream, the accumulator is split
  at every run of newline and carriage-return characters, every segment but the last is
  emitted as a line of that stream (by \<^verbatim>\<open>out\<close>, whose effect is given), and the last segment
  is the new pending fragment.
\<close>

theorem line_assembler_chunks:
  "feed_stdout (p\<lparr>log := None\<rparr>) (captureOutput (p\<lparr>log := None\<rparr>))
       [''ab'', ''c'' @ [CHR 0x0A] @ ''def'' @ [CHR 0x0D, CHR 0x0A], ''ghi'']
     = ([ConsoleLog (JStr ''abc''), ConsoleLog (JStr ''def'')], \<lparr>op = ''ghi'', er = []\<rparr>)
   \<and> captureOutput_flush (p\<lparr>log := None\<rparr>) \<lparr>op = ''ghi'', er = []\<rparr>
     = ([ConsoleLog (JStr ''ghi'')], \<lparr>op = [], er = []\<rparr>)
   \<and> feed_stdout (p\<lparr>log := Some ''out.log''\<rparr>) (captureOutput (p\<lparr>log := Some ''out.log''\<rparr>))
       [''ab'', ''c'' @ [CHR 0x0A] @ ''def'' @ [CHR 0x0D, CHR 0x0A], ''ghi'']
     = ([AppendFile ''out.log'' (''abc'' @ [CHR 0x0A]),
         AppendFile ''out.log'' (''def'' @ [CHR 0x0A])], \<lparr>op = ''ghi'', er = []\<rparr>)
   \<and> captureOutput_flush (p\<lparr>log := Some ''out.log''\<rparr>) \<lparr>op = ''ghi'', er = []\<rparr>
     = ([AppendFile ''out.log'' (''ghi'' @ [CHR 0x0A])], \<lparr>op = [], er = []\<rparr>)
   \<and> on_stdout_data p c d =
       (concat (map (\<lambda>l. out p l False) (butlast (split_nl (op c @ d)))),
        c\<lparr>op := last (split_nl (op c @ d))\<rparr>)
   \<and> on_stderr_data p c d =
       (concat (map (\<lambda>l. out p l True) (butlast (split_nl (er c @ d)))),
        c\<lparr>er := last (split_nl (er c @ d))\<rparr>)
   \<and> out p l b =
       (case log p of
          None \<Rightarrow> [if b then ConsoleError (JStr l) else ConsoleLog (JStr l)]
        | Some file \<Rightarrow>
            if file = [] then [if b then ConsoleError (JStr l) else ConsoleLog (JStr l)]
            else [AppendFile file (l @ [CHR 0x0A])])
   \<and> split_nl f =
       (let seg = takeWhile (\<lambda>x. \<not> is_nl x) f; rest = dropWhile (\<lambda>x. \<not> is_nl x) f
        in if rest = [] then [seg] else seg # split_nl (dropWhile is_nl rest))"
proof -
  have scenario: "feed_stdout q (captureOutput q)
       [''ab'', ''c'' @ [CHR 0x0A] @ ''def'' @ [CHR 0x0D, CHR 0x0A], ''ghi'']
     = (out q ''abc'' False @ out q ''def'' False, \<lparr>op = ''ghi'', er = []\<rparr>)" for q
    using split_nl_ab split_nl_abc_def split_nl_ghi
    by (simp add: captureOutput_def on_stdout_data_def show_lines_1_eq)
  have flushed: "captureOutput_flush q \<lparr>op = ''ghi'', er = []\<rparr>
     = (out q ''ghi'' False, \<lparr>op = [], er = []\<rparr>)" for q
    using trim_ghi by (simp add: captureOutput_flush_def)
  have console: "feed_stdout (p\<lparr>log := None\<rparr>) (captureOutput (p\<lparr>log := None\<rparr>))
       [''ab'', ''c'' @ [CHR 0x0A] @ ''def'' @ [CHR 0x0D, CHR 0x0A], ''ghi'']
     = ([ConsoleLog (JStr ''abc''), ConsoleLog (JStr ''def'')], \<lparr>op = ''ghi'', er = []\<rparr>)"
    unfolding scenario by (simp add: out_explicit)
  have console_flush: "captureOutput_flush (p\<lparr>log := None\<rparr>) \<lparr>op = ''ghi'', er = []\<rparr>
     = ([ConsoleLog (JStr ''ghi'')], \<lparr>op = [], er = []\<rparr>)"
    unfolding flushed by (simp add: out_explicit)
  have logged: "feed_stdout (p\<lparr>log := Some ''out.log''\<rparr>)
       (captureOutput (p\<lparr>log := Some ''out.log''\<rparr>))
       [''ab'', ''c'' @ [CHR 0x0A] @ ''def'' @ [CHR 0x0D, CHR 0x0A], ''ghi'']
     = ([AppendFile ''out.log'' (''abc'' @ [CHR 0x0A]),
         AppendFile ''out.log'' (''def'' @ [CHR 0x0A])], \<lparr>op = ''ghi'', er = []\<rparr>)"
    unfolding scenario by (simp add: out_explicit)
  have logged_flush: "captureOutput_flush (p\<lparr>log := Some ''out.log''\<rparr>) \<lparr>op = ''ghi'', er = []\<rparr>
     = ([AppendFile ''out.log'' (''ghi'' @ [CHR 0x0A])], \<lparr>op = [], er = []\<rparr>)"
    unfolding flushed by (simp add: out_explicit)
  have normal: "on_stdout_data p c d =
       (concat (map (\<lambda>l. out p l False) (butlast (split_nl (op c @ d)))),
        c\<lparr>op := last (split_nl (op c @ d))\<rparr>)"
    by (simp add: on_stdout_data_def show_lines_1_eq)
  have error: "on_stderr_data p c d =
       (concat (map (\<lambda>l. out p l True) (butlast (split_nl (er c @ d)))),
        c\<lparr>er := last (split_nl (er c @ d))\<rparr>)"
    by (simp add: on_stderr_data_def show_lines_1_eq)
  have runs: "split_nl f =
       (let seg = takeWhile (\<lambda>x. \<not> is_nl x) f; rest = dropWhile (\<lambda>x. \<not> is_nl x) f
        in if rest = [] then [seg] else seg # split_nl (dropWhile is_nl rest))"
    unfolding split_nl_def by (rule split_from_run)
  from console console_flush logged logged_flush normal error out_explicit [of p l b] runs
  show ?thesis by blast
qed

text \<open>
  C7. \<^verbatim>\<open>flush\<close> is idempotent. The first call leaves both accumulators empty, a second
  call right after it emits nothing and changes nothing, and the two calls together
  emit what one call emits: the trimmed pending fragment of each stream, once, when it is
  not blank, as one line on the stream's destination. Two pending states show it: padded
  fragments on both streams without a log file, and a blank error fragment with one.
\<close>

theorem flush_idempotent:
  "captureOutput_flush p (snd (captureOutput_flush p c)) = ([], snd (captureOutput_flush p c))
   \<and> op (snd (captureOutput_flush p c)) = [] \<and> er (snd (captureOutput_flush p c)) = []
   \<and> fst (captureOutput_flush p c) @ fst (captureOutput_flush p (snd (captureOutput_flush p c)))
       = (if trim (op c) = [] then [] else out p (trim (op c)) False)
         @ (if trim (er c) = [] then [] else out p (trim (er c)) True)
   \<and> out p l b =
       (case log p of
          None \<Rightarrow> [if b then ConsoleError (JStr l) else ConsoleLog (JStr l)]
        | Some file \<Rightarrow>
            if file = [] then [if b then ConsoleError (JStr l) else ConsoleLog (JStr l)]
            else [AppendFile file (l @ [CHR 0x0A])])
   \<and> captureOutput_flush (p\<lparr>log := None\<rparr>) \<lparr>op = '' ghi '' @ [CHR 0x0A], er = '' err''\<rparr>
       = ([ConsoleLog (JStr ''ghi''), ConsoleError (JStr ''err'')], \<lparr>op = [], er = []\<rparr>)
   \<and> captureOutput_flush (p\<lparr>log := Some ''out.log''\<rparr>) \<lparr>op = ''ghi'', er = [CHR 0x09, CHR 0x20]\<rparr>
       = ([AppendFile ''out.log'' (''ghi'' @ [CHR 0x0A])], \<lparr>op = [], er = []\<rparr>)
   \<and> s = takeWhile js_ws s @ trim s @ rev (takeWhile js_ws (rev (dropWhile js_ws s)))"
proof -
  have t: "trim [] = []" by (simp add: trim_def)
  have twice: "captureOutput_flush p (snd (captureOutput_flush p c)) = ([], snd (captureOutput_flush p c))
   \<and> op (snd (captureOutput_flush p c)) = [] \<and> er (snd (captureOutput_flush p c)) = []
   \<and> fst (captureOutput_flush p c) @ fst (captureOutput_flush p (snd (captureOutput_flush p c)))
       = (if trim (op c) = [] then [] else out p (trim (op c)) False)
         @ (if trim (er c) = [] then [] else out p (trim (er c)) True)"
    using t by (auto simp add: captureOutput_flush_def)
  have te: "trim '' err'' = ''err''" by (simp add: trim_def js_ws_def)
  have ex1: "captureOutput_flush (p\<lparr>log := None\<rparr>) \<lparr>op = '' ghi '' @ [CHR 0x0A], er = '' err''\<rparr>
       = ([ConsoleLog (JStr ''ghi''), ConsoleError (JStr ''err'')], \<lparr>op = [], er = []\<rparr>)"
    using trim_padded te by (simp add: captureOutput_flush_def out_explicit)
  have ex2: "captureOutput_flush (p\<lparr>log := Some ''out.log''\<rparr>) \<lparr>op = ''ghi'', er = [CHR 0x09, CHR 0x20]\<rparr>
       = ([AppendFile ''out.log'' (''ghi'' @ [CHR 0x0A])], \<lparr>op = [], er = []\<rparr>)"
    using trim_ghi trim_blank by (simp add: captureOutput_flush_def out_explicit)
  from twice out_explicit [of p l b] ex1 ex2 trim_decomposition [of s]
  show ?thesis by blast
qed


section \<open>Properties of the registry operations\<close>

lemma enumerate_nth: "enumerate 0 xs = map (\<lambda>i. (i, xs ! i)) [0..<length xs]"
proof -
  have "zip [0..<length xs] (map (\<lambda>i. xs ! i) [0..<length xs])
        = map (\<lambda>i. (i, xs ! i)) [0..<length xs]"
    by (simp add: zip_map2 zip_same_conv_map)
  then show ?thesis by (simp add: enumerate_eq_zip map_nth)
qed

lemma filter_enumerate:
  "map (f \<circ> fst) (filter (\<lambda>ip. P (snd ip)) (enumerate 0 xs))
     = map f (filter (\<lambda>i. P (xs ! i)) [0..<length xs])"
  by (simp add: enumerate_nth filter_map comp_def)

lemma forEach_stop:
  "forEach (\<lambda>p i s. if P p then stop p i s else s) xs i0 st
     = emit (map (StopCall \<circ> fst) (filter (\<lambda>ip. P (snd ip)) (enumerate i0 xs))) st"
proof (induction xs arbitrary: i0 st)
  case Nil
  then show ?case by (simp add: emit_def)
next
  case (Cons x xs)
  then show ?case by (simp add: stop_def emit_def)
qed

lemma forEach_restart:
  "forEach (\<lambda>p i s. if P p then restart p i s else s) xs i0 st
     = emit (map (RestartCall \<circ> fst) (filter (\<lambda>ip. P (snd ip)) (enumerate i0 xs))) st"
proof (induction xs arbitrary: i0 st)
  case Nil
  then show ?case by (simp add: emit_def)
next
  case (Cons x xs)
  then show ?case by (simp add: restart_def emit_def)
qed

text \<open>
  C9. \<^verbatim>\<open>stopByName\<close> calls \<^verbatim>\<open>stop\<close> on the entries whose name is the given one, and on no
  other: the calls it makes are those for the matching indices of the registry, each index
  once, in increasing order, which is the order of insertion. The registry is as before.
\<close>

theorem stopByName_broadcast:
  "REG (stopByName n st) = REG st
   \<and> ONSTOPPING (stopByName n st) = ONSTOPPING st
   \<and> effects (stopByName n st)
       = effects st @ map StopCall (filter (\<lambda>i. name (REG st ! i) = n) [0..<length (REG st)])"
  unfolding stopByName_def
  using filter_enumerate [of StopCall "\<lambda>p. name p = n" "REG st"]
  by (simp add: forEach_stop emit_def)

section \<open>Properties of the exit handling\<close>

lemma callbacks_append: "callbacks (xs @ ys) = callbacks xs @ callbacks ys"
  by (simp add: callbacks_def)

lemma callbacks_out: "callbacks (out p l b) = []"
  by (simp add: callbacks_def out_def split: option.splits)

lemma callbacks_concat_out: "callbacks (concat (map (\<lambda>l. out p l b) ls)) = []"
  by (induction ls) (simp_all add: callbacks_append callbacks_out, simp add: callbacks_def)

lemma callbacks_call_cb: "callbacks (call_cb k v) = [Callback k v]"
  by (simp add: callbacks_def call_cb_def split: callback.splits)

lemma callbacks_flush: "callbacks (fst (captureOutput_flush p c)) = []"
  by (simp add: captureOutput_flush_def callbacks_append callbacks_out) (simp add: callbacks_def)

lemma pi_flush_callbacks: "callbacks (fst (pi_flush p)) = []"
proof (cases "flush p")
  case None
  then show ?thesis by (simp add: pi_flush_def callbacks_def)
next
  case (Some c)
  obtain es c' where fl: "captureOutput_flush p c = (es, c')"
    by (cases "captureOutput_flush p c")
  with callbacks_flush [of p c] Some show ?thesis
    by (simp add: pi_flush_def)
qed

lemma pi_flush_cb: "cb (snd (pi_flush p)) = cb p"
  by (simp add: pi_flush_def split: option.splits prod.splits)

lemma on_event_cb: "cb (snd (on_event p e)) = cb p"
  using pi_flush_cb [of p]
  by (cases e) (auto simp add: on_error_def on_done_1_def split: option.splits prod.splits)

lemma on_event_callbacks:
  assumes "cb p = Some k"
  shows "length (callbacks (fst (on_event p e))) = (if terminal e then 1 else 0)"
proof (cases e)
  case (StdoutData d)
  then show ?thesis
    by (simp add: on_stdout_data_def show_lines_1_eq callbacks_concat_out split: option.splits) (simp add: callbacks_def)
next
  case (StderrData d)
  then show ?thesis
    by (simp add: on_stderr_data_def show_lines_1_eq callbacks_concat_out split: option.splits) (simp add: callbacks_def)
next
  case (ErrorEvent err)
  obtain es q where pf: "pi_flush p = (es, q)" by (cases "pi_flush p")
  with pi_flush_callbacks [of p] pi_flush_cb [of p] assms have "callbacks es = []" "cb q = Some k" by simp_all
  with ErrorEvent pf show ?thesis
    by (simp add: on_error_def pi_cb_def callbacks_append callbacks_call_cb)
next
  case (ExitEvent code signal)
  obtain es q where pf: "pi_flush p = (es, q)" by (cases "pi_flush p")
  with pi_flush_callbacks [of p] pi_flush_cb [of p] assms have "callbacks es = []" "cb q = Some k" by simp_all
  with ExitEvent pf show ?thesis
    by (simp add: on_done_1_def pi_cb_def callbacks_append callbacks_call_cb)
next
  case (CloseEvent code signal)
  obtain es q where pf: "pi_flush p = (es, q)" by (cases "pi_flush p")
  with pi_flush_callbacks [of p] pi_flush_cb [of p] assms have "callbacks es = []" "cb q = Some k" by simp_all
  with CloseEvent pf show ?thesis
    by (simp add: on_done_1_def pi_cb_def callbacks_append callbacks_call_cb)
qed

text \<open>The call of the callback, spelled out.\<close>

lemma call_cb_explicit:
  "call_cb k v = Callback k v # (if k = DefaultCb \<and> truthy v then [ConsoleError v] else [])"
  by (cases k) (simp_all add: call_cb_def)

lemma captureOutput_flush_state: "snd (captureOutput_flush p c) = \<lparr>op = [], er = []\<rparr>"
  by (simp add: captureOutput_flush_def)

lemma pi_flush_Some:
  "flush p = Some c \<Longrightarrow>
   pi_flush p = (fst (captureOutput_flush p c), p\<lparr>flush := Some \<lparr>op = [], er = []\<rparr>\<rparr>)"
  using captureOutput_flush_state [of p c]
  by (auto simp add: pi_flush_def split: prod.splits)

text \<open>
  Each of the three listeners of \<^verbatim>\<open>handleExit\<close> first flushes the pending output and then
  calls the callback: with the error, with \<^verbatim>\<open>Exited with error\<close> when the code or the signal is
  truthy, and with no argument otherwise.
\<close>

lemma terminal_events_flush_then_call_back:
  assumes "cb p = Some k" and "flush p = Some c"
  shows "on_event p (ErrorEvent err)
           = (fst (captureOutput_flush p c) @ call_cb k err,
              p\<lparr>flush := Some \<lparr>op = [], er = []\<rparr>\<rparr>)"
    and "on_event p (ExitEvent code signal)
           = (fst (captureOutput_flush p c)
                @ call_cb k (if truthy code \<or> truthy signal then JStr ''Exited with error''
                             else JUndefined),
              p\<lparr>flush := Some \<lparr>op = [], er = []\<rparr>\<rparr>)"
    and "on_event p (CloseEvent code signal)
           = (fst (captureOutput_flush p c)
                @ call_cb k (if truthy code \<or> truthy signal then JStr ''Exited with error''
                             else JUndefined),
              p\<lparr>flush := Some \<lparr>op = [], er = []\<rparr>\<rparr>)"
  using assms pi_flush_Some [OF assms(2)]
  by (simp_all add: on_error_def on_done_1_def pi_cb_def)

lemma callback_count:
  "cb p = Some k \<Longrightarrow>
   length (callbacks (fst (on_events p evs))) = length (filter terminal evs)"
proof (induction evs arbitrary: p)
  case Nil
  then show ?case by (simp add: callbacks_def)
next
  case (Cons e evs)
  obtain es q where oe: "on_event p e = (es, q)" by (cases "on_event p e")
  obtain es' q' where oes: "on_events q evs = (es', q')" by (cases "on_events q evs")
  from oe on_event_cb [of p e] Cons.prems have "cb q = Some k" by simp
  from Cons.IH [OF this] oes have ih: "length (callbacks es') = length (filter terminal evs)" by simp
  from on_event_callbacks [OF Cons.prems, of e] oe
  have "length (callbacks es) = (if terminal e then 1 else 0)" by simp
  with ih oe oes show ?case by (simp add: callbacks_append)
qed

text \<open>
  C1, as the code has it. \<^verbatim>\<open>handleExit\<close> keeps no record of an earlier event: each of the
  listeners for \<^verbatim>\<open>error\<close>, \<^verbatim>\<open>exit\<close> and \<^verbatim>\<open>close\<close> flushes the pending output and then calls the
  completion callback, whenever it runs. For any sequence of events delivered to one entry
  the callback is therefore called once for every terminal event of the sequence, each
  call right after a flush, and exactly once only when the sequence holds exactly one
  terminal event.
\<close>

theorem callback_once_per_terminal_event:
  "cb p = Some k \<Longrightarrow>
   length (callbacks (fst (on_events p evs))) = length (filter terminal evs)
   \<and> (flush p = Some c \<longrightarrow>
        on_event p (ErrorEvent err)
          = (fst (captureOutput_flush p c) @ call_cb k err,
             p\<lparr>flush := Some \<lparr>op = [], er = []\<rparr>\<rparr>)
        \<and> on_event p (ExitEvent code signal)
          = (fst (captureOutput_flush p c)
               @ call_cb k (if truthy code \<or> truthy signal then JStr ''Exited with error''
                            else JUndefined),
             p\<lparr>flush := Some \<lparr>op = [], er = []\<rparr>\<rparr>)
        \<and> on_event p (CloseEvent code signal)
          = (fst (captureOutput_flush p c)
               @ call_cb k (if truthy code \<or> truthy signal then JStr ''Exited with error''
                            else JUndefined),
             p\<lparr>flush := Some \<lparr>op = [], er = []\<rparr>\<rparr>))
   \<and> fst (captureOutput_flush p c)
       = (if trim (op c) = [] then [] else out p (trim (op c)) False)
         @ (if trim (er c) = [] then [] else out p (trim (er c)) True)
   \<and> call_cb k v = Callback k v # (if k = DefaultCb \<and> truthy v then [ConsoleError v] else [])"
proof -
  assume k: "cb p = Some k"
  have t: "trim [] = []" by (simp add: trim_def)
  have fl: "fst (captureOutput_flush p c)
       = (if trim (op c) = [] then [] else out p (trim (op c)) False)
         @ (if trim (er c) = [] then [] else out p (trim (er c)) True)"
    using t by (auto simp add: captureOutput_flush_def)
  from callback_count [OF k, of evs] terminal_events_flush_then_call_back [OF k] fl
    call_cb_explicit [of k v]
  show ?thesis by blast
qed

text \<open>
  The theorem at an entry with a callback and the pending fragment \<^verbatim>\<open>tail\<close>: data and one
  \<^verbatim>\<open>error\<close> event give one call; a clean \<^verbatim>\<open>exit\<close> prints the fragment and then calls back.
\<close>

theorem callback_once_per_terminal_event_witness:
  "length (callbacks (fst (on_events
         (empty_pi\<lparr>cb := Some (UserCb 0), flush := Some \<lparr>op = ''tail'', er = []\<rparr>\<rparr>)
         [StdoutData ''x'', ErrorEvent (JObj [(''code'', JStr ''ENOENT'')])]))) = 1
   \<and> on_event (empty_pi\<lparr>cb := Some (UserCb 0), flush := Some \<lparr>op = ''tail'', er = []\<rparr>\<rparr>)
        (ExitEvent (JNum 0) JNull)
      = ([ConsoleLog (JStr ''tail''), Callback (UserCb 0) JUndefined],
         empty_pi\<lparr>cb := Some (UserCb 0), flush := Some \<lparr>op = [], er = []\<rparr>\<rparr>)"
proof -
  let ?p = "empty_pi\<lparr>cb := Some (UserCb 0), flush := Some \<lparr>op = ''tail'', er = []\<rparr>\<rparr>"
  have h: "cb ?p = Some (UserCb 0)" by (simp add: empty_pi_def)
  have f: "flush ?p = Some \<lparr>op = ''tail'', er = []\<rparr>" by (simp add: empty_pi_def)
  have tt: "trim ''tail'' = ''tail''" by (simp add: trim_def js_ws_def)
  have t0: "trim [] = []" by (simp add: trim_def)
  have o: "out ?p ''tail'' False = [ConsoleLog (JStr ''tail'')]"
    by (simp add: out_explicit empty_pi_def)
  note inst = callback_once_per_terminal_event [OF h,
      of "[StdoutData ''x'', ErrorEvent (JObj [(''code'', JStr ''ENOENT'')])]"
         "\<lparr>op = ''tail'', er = []\<rparr>" _ "JNum 0" JNull JUndefined]
  from inst have a: "length (callbacks (fst (on_events ?p
         [StdoutData ''x'', ErrorEvent (JObj [(''code'', JStr ''ENOENT'')])]))) = 1"
    by simp
  from inst f have "on_event ?p (ExitEvent (JNum 0) JNull)
      = (fst (captureOutput_flush ?p \<lparr>op = ''tail'', er = []\<rparr>) @ call_cb (UserCb 0) JUndefined,
         ?p\<lparr>flush := Some \<lparr>op = [], er = []\<rparr>\<rparr>)"
    by simp
  moreover from inst have "fst (captureOutput_flush ?p \<lparr>op = ''tail'', er = []\<rparr>)
      = [ConsoleLog (JStr ''tail'')]"
    using tt t0 o by simp
  moreover from inst have "call_cb (UserCb 0) JUndefined = [Callback (UserCb 0) JUndefined]"
    by simp
  ultimately have b: "on_event ?p (ExitEvent (JNum 0) JNull)
      = ([ConsoleLog (JStr ''tail''), Callback (UserCb 0) JUndefined],
         empty_pi\<lparr>cb := Some (UserCb 0), flush := Some \<lparr>op = [], er = []\<rparr>\<rparr>)"
    by simp
  from a b show ?thesis by blast
qed

section \<open>Properties of \<^verbatim>\<open>start\<close> and of the registry\<close>

lemmas example_defs = start_def get_script_1_def copy_pi_def getScriptHandler_def
  example_world_def posix_extname_def base_name_def handlers_def launchPythonProcess_def
  launchJSProcess_def captureOutput_def emit_def call_cb_def init_state_def str_val_def
  Let_def empty_pi_def no_files_def files_with_def effective_cb_def refuse_nul_def raised_def

text \<open>
  C1, as the claim states it, fails: a process started from \<^verbatim>\<open>ok.js\<close> that ends cleanly and
  delivers both \<^verbatim>\<open>exit\<close> and \<^verbatim>\<open>close\<close> has its completion callback called twice.
\<close>

theorem exit_and_close_call_back_twice:
  "callbacks (fst (on_events
      (REG (fst (start (example_world no_files (\<lambda>t. None))
                   (Some (empty_pi\<lparr>name := Some ''p'', script := Some ''ok.js''\<rparr>))
                   (Some (UserCb 0)) init_state)) ! 0)
      [ExitEvent (JNum 0) JNull, CloseEvent (JNum 0) JNull]))
   = [Callback (UserCb 0) JUndefined, Callback (UserCb 0) JUndefined]"
  by (simp add: example_defs callbacks_def on_done_1_def pi_flush_def pi_cb_def
      captureOutput_flush_def)

lemma REG_emit: "REG (emit es st) = REG st"
  by (simp add: emit_def)

lemma launches_call_cb: "launches (call_cb k v) = []"
  by (simp add: launches_def call_cb_def split: callback.splits)

lemma launches_append: "launches (xs @ ys) = launches xs @ launches ys"
  by (simp add: launches_def)

text \<open>
  What a launcher leaves: the identity of the entry is kept; when the call of \<^verbatim>\<open>spawn\<close> or
  \<^verbatim>\<open>fork\<close> returns, the entry has its child and the launch is the only effect; when it
  throws, child and buffers are as before and there is no effect.
\<close>

lemma run_handler_result:
  assumes "run_handler w h p = (es, e, t)"
  shows "name e = name p \<and> x_script e = x_script p \<and> cb e = cb p
         \<and> (t = None \<longrightarrow> (\<exists>ch. child e = Some ch \<and> es = [Launch ch]))
         \<and> (t \<noteq> None \<longrightarrow> child e = child p \<and> flush e = flush p \<and> es = [])"
  using assms
  by (cases h)
     (auto simp add: launchJSProcess_def launchPythonProcess_def Let_def split: option.splits)

text \<open>
  \<^verbatim>\<open>start\<close> on the path that finds a handler: the entry is in the registry whatever the
  handler does, and the callback is called only when the handler returns.
\<close>

lemma start_launch:
  assumes "truthy (str_val (script p0)) \<or> truthy (str_val (cwd p0))"
    and "get_script_1 w (copy_pi p0 (effective_cb cbo)) = Inr s"
    and "truthy s"
    and "getScriptHandler w s = Inr (Some h)"
    and "run_handler w h ((copy_pi p0 (effective_cb cbo))\<lparr>x_script := s\<rparr>) = (es, e, t)"
  shows "start w (Some p0) cbo st =
           (case t of
              Some ex \<Rightarrow> (emit es (st\<lparr>REG := REG st @ [e]\<rparr>), raised p0 ex)
            | None \<Rightarrow> (emit (es @ call_cb (effective_cb cbo) JUndefined)
                         (st\<lparr>REG := REG st @ [e]\<rparr>), Completed))"
  using assms by (auto simp add: start_def Let_def split: option.splits)

text \<open>The registry changes only on that path, and then by one entry at its end.\<close>

lemma start_cases:
  "REG (fst (start w pio cbo st)) = REG st
   \<or> (\<exists>q s h. pio = Some q
         \<and> (truthy (str_val (script q)) \<or> truthy (str_val (cwd q)))
         \<and> get_script_1 w (copy_pi q (effective_cb cbo)) = Inr s \<and> truthy s
         \<and> getScriptHandler w s = Inr (Some h)
         \<and> REG (fst (start w pio cbo st))
             = REG st @ [fst (snd (run_handler w h ((copy_pi q (effective_cb cbo))\<lparr>x_script := s\<rparr>)))])"
proof (cases pio)
  case None
  then show ?thesis by (simp add: start_def emit_def)
next
  case (Some p0)
  let ?k = "effective_cb cbo"
  show ?thesis
  proof (cases "\<not> truthy (str_val (script p0)) \<and> \<not> truthy (str_val (cwd p0))")
    case True
    with Some show ?thesis by (simp add: start_def emit_def)
  next
    case nb: False
    show ?thesis
    proof (cases "get_script_1 w (copy_pi p0 ?k)")
      case (Inl e)
      with Some nb show ?thesis by (auto simp add: start_def)
    next
      case (Inr s)
      show ?thesis
      proof (cases "truthy s")
        case False
        with Some nb Inr show ?thesis by (auto simp add: start_def emit_def)
      next
        case ts: True
        show ?thesis
        proof (cases "getScriptHandler w s")
          case (Inl e)
          with Some nb Inr ts show ?thesis by (auto simp add: start_def)
        next
          case hr: (Inr ho)
          show ?thesis
          proof (cases ho)
            case None
            with Some nb Inr ts hr show ?thesis by (auto simp add: start_def emit_def)
          next
            case sh: (Some h)
            obtain es e t where rh:
              "run_handler w h ((copy_pi p0 ?k)\<lparr>x_script := s\<rparr>) = (es, e, t)"
              by (cases "run_handler w h ((copy_pi p0 ?k)\<lparr>x_script := s\<rparr>)")
            from nb have nb': "truthy (str_val (script p0)) \<or> truthy (str_val (cwd p0))" by blast
            from hr sh have gh: "getScriptHandler w s = Inr (Some h)" by simp
            from start_launch [OF nb' Inr ts gh rh, of st]
            have "REG (fst (start w (Some p0) cbo st)) = REG st @ [e]"
              by (cases t) (simp_all add: emit_def)
            with Some nb' Inr ts gh rh show ?thesis by auto
          qed
        qed
      qed
    qed
  qed
qed

lemma start_REG:
  "REG (fst (start w pio cbo st)) = REG st \<or> (\<exists>e. REG (fst (start w pio cbo st)) = REG st @ [e])"
  using start_cases [of w pio cbo st] by blast

text \<open>
  The listeners and the operations change an entry of the registry in its output
  buffers only, and remove none.
\<close>

lemma pi_flush_only_flush: "(snd (pi_flush p))\<lparr>flush := fl\<rparr> = p\<lparr>flush := fl\<rparr>"
  by (simp add: pi_flush_def split: option.splits prod.splits)

lemma on_event_only_flush: "(snd (on_event p e))\<lparr>flush := fl\<rparr> = p\<lparr>flush := fl\<rparr>"
  using pi_flush_only_flush [where p = p and fl = fl]
  by (cases e) (auto simp add: on_error_def on_done_1_def split: option.splits prod.splits)

lemma forEach_REG:
  "(\<And>p i s. REG (f p i s) = REG s) \<Longrightarrow> REG (forEach f xs i st) = REG st"
  by (induction xs arbitrary: i st) simp_all

lemma REG_stopByName: "REG (stopByName n st) = REG st"
  unfolding stopByName_def by (rule forEach_REG) (simp add: stop_def emit_def)

lemma REG_restartByName: "REG (restartByName n st) = REG st"
  unfolding restartByName_def by (rule forEach_REG) (simp add: restart_def emit_def)

lemma REG_stopall: "REG (stopall st) = REG st"
  unfolding stopall_def by (rule forEach_REG) (simp add: stop_def emit_def)

lemma REG_onstopping: "REG (onstopping hook st) = REG st"
  by (simp add: onstopping_def)

lemma step_keeps:
  assumes "i < length (REG st)"
  shows "i < length (REG (step w x st))
         \<and> (REG (step w x st) ! i)\<lparr>flush := fl\<rparr> = (REG st ! i)\<lparr>flush := fl\<rparr>"
proof (cases x)
  case (Start pio cbo)
  with start_REG [of w pio cbo st] assms show ?thesis by (auto simp add: nth_append)
next
  case (Restart n)
  with assms show ?thesis by (simp add: REG_restartByName)
next
  case (Stop n)
  with assms show ?thesis by (simp add: REG_stopByName)
next
  case Stopall
  with assms show ?thesis by (simp add: REG_stopall)
next
  case (Onstopping hook)
  with assms show ?thesis by (simp add: REG_onstopping)
next
  case (ChildEvent j e)
  show ?thesis
  proof (cases "j < length (REG st)")
    case False
    with ChildEvent assms show ?thesis by (simp add: deliver_def)
  next
    case True
    obtain es q where oe: "on_event (REG st ! j) e = (es, q)" by (cases "on_event (REG st ! j) e")
    with on_event_only_flush [where p = "REG st ! j" and e = e and fl = fl] have "q\<lparr>flush := fl\<rparr> = (REG st ! j)\<lparr>flush := fl\<rparr>" by simp
    with ChildEvent True oe assms show ?thesis
      by (simp add: deliver_def emit_def nth_list_update)
  qed
qed

lemma run_keeps:
  "i < length (REG st) \<Longrightarrow>
   i < length (REG (run ops st)) \<and> (REG (run ops st) ! i)\<lparr>flush := fl\<rparr> = (REG st ! i)\<lparr>flush := fl\<rparr>"
proof (induction ops arbitrary: st)
  case Nil
  then show ?case by simp
next
  case (Cons wx ops)
  obtain w x where wx: "wx = (w, x)" by (cases wx)
  from step_keeps [OF Cons.prems, where w = w and x = x and fl = fl]
  have a: "i < length (REG (step w x st))"
    and b: "(REG (step w x st) ! i)\<lparr>flush := fl\<rparr> = (REG st ! i)\<lparr>flush := fl\<rparr>" by simp_all
  from Cons.IH [OF a] b wx show ?case by simp
qed

lemma step_length: "length (REG st) \<le> length (REG (step w x st))"
proof (cases x)
  case (Start pio cbo)
  with start_REG [of w pio cbo st] show ?thesis by auto
next
  case (ChildEvent j e)
  then show ?thesis by (simp add: deliver_def emit_def split: prod.splits)
qed (simp_all add: REG_restartByName REG_stopByName REG_stopall REG_onstopping)

lemma run_length: "length (REG st) \<le> length (REG (run ops st))"
proof (induction ops arbitrary: st)
  case Nil
  then show ?case by simp
next
  case (Cons wx ops)
  obtain w x where wx: "wx = (w, x)" by (cases wx)
  from Cons.IH [of "step w x st"] step_length [of st w x] wx show ?case by simp
qed

text \<open>
  The configuration errors that \<^verbatim>\<open>start\<close> reports: no parameters; neither \<^verbatim>\<open>script\<close> nor
  \<^verbatim>\<open>cwd\<close>; a resolved script that is empty; a resolved script that is a string whose
  extension is missing or is neither \<^verbatim>\<open>.js\<close> nor \<^verbatim>\<open>.py\<close>. In each the callback is called with
  the message given, no launch is requested and the registry is as before.
\<close>

lemma start_configuration_errors:
  "(start w None cbo st
      = (emit (call_cb (effective_cb cbo) (JStr ''Cannot start process without any information'')) st,
         Completed))
   \<and> (\<not> truthy (str_val (script p0)) \<and> \<not> truthy (str_val (cwd p0)) \<longrightarrow>
        start w (Some p0) cbo st
          = (emit (call_cb (effective_cb cbo)
               (JStr (''Cannot start process without '' @ [CHR 0x27] @ ''script'' @ [CHR 0x27]
                      @ '' or '' @ [CHR 0x27] @ ''cwd'' @ [CHR 0x27]))) st, Completed))
   \<and> ((truthy (str_val (script p0)) \<or> truthy (str_val (cwd p0)))
        \<and> get_script_1 w (copy_pi p0 (effective_cb cbo)) = Inr s \<and> \<not> truthy s \<longrightarrow>
        start w (Some p0) cbo st
          = (emit (call_cb (effective_cb cbo) (JStr ''No script given to run'')) st, Completed))
   \<and> ((truthy (str_val (script p0)) \<or> truthy (str_val (cwd p0)))
        \<and> get_script_1 w (copy_pi p0 (effective_cb cbo)) = Inr (JStr path) \<and> path \<noteq> []
        \<and> path_extname w path \<noteq> ''.js'' \<and> path_extname w path \<noteq> ''.py'' \<longrightarrow>
        start w (Some p0) cbo st
          = (emit (call_cb (effective_cb cbo)
               (JStr (''Don'' @ [CHR 0x27] @ ''t know how to start '' @ path))) st, Completed))
   \<and> REG (emit (call_cb k (JStr msg)) st) = REG st
   \<and> effects (emit (call_cb k (JStr msg)) st) = effects st @ call_cb k (JStr msg)
   \<and> call_cb k (JStr msg)
       = Callback k (JStr msg) # (if k = DefaultCb \<and> msg \<noteq> [] then [ConsoleError (JStr msg)] else [])
   \<and> launches (call_cb k (JStr msg)) = []"
proof -
  have a: "start w None cbo st
      = (emit (call_cb (effective_cb cbo) (JStr ''Cannot start process without any information'')) st,
         Completed)"
    by (simp add: start_def msg_no_info_def)
  have b: "\<not> truthy (str_val (script p0)) \<and> \<not> truthy (str_val (cwd p0)) \<longrightarrow>
        start w (Some p0) cbo st
          = (emit (call_cb (effective_cb cbo)
               (JStr (''Cannot start process without '' @ [CHR 0x27] @ ''script'' @ [CHR 0x27]
                      @ '' or '' @ [CHR 0x27] @ ''cwd'' @ [CHR 0x27]))) st, Completed)"
    by (simp add: start_def msg_no_script_or_cwd_def)
  have c: "(truthy (str_val (script p0)) \<or> truthy (str_val (cwd p0)))
        \<and> get_script_1 w (copy_pi p0 (effective_cb cbo)) = Inr s \<and> \<not> truthy s \<longrightarrow>
        start w (Some p0) cbo st
          = (emit (call_cb (effective_cb cbo) (JStr ''No script given to run'')) st, Completed)"
    by (auto simp add: start_def Let_def msg_no_script_def)
  have d: "(truthy (str_val (script p0)) \<or> truthy (str_val (cwd p0)))
        \<and> get_script_1 w (copy_pi p0 (effective_cb cbo)) = Inr (JStr path) \<and> path \<noteq> []
        \<and> path_extname w path \<noteq> ''.js'' \<and> path_extname w path \<noteq> ''.py'' \<longrightarrow>
        start w (Some p0) cbo st
          = (emit (call_cb (effective_cb cbo)
               (JStr (''Don'' @ [CHR 0x27] @ ''t know how to start '' @ path))) st, Completed)"
    by (auto simp add: start_def Let_def getScriptHandler_def handlers_def msg_dont_know_def)
  have e: "REG (emit (call_cb k (JStr msg)) st) = REG st"
    by (rule REG_emit)
  have f: "effects (emit (call_cb k (JStr msg)) st) = effects st @ call_cb k (JStr msg)"
    by (simp add: emit_def)
  have g: "call_cb k (JStr msg)
       = Callback k (JStr msg) # (if k = DefaultCb \<and> msg \<noteq> [] then [ConsoleError (JStr msg)] else [])"
    by (simp add: call_cb_explicit)
  from a b c d e f g launches_call_cb [of k "JStr msg"]
  show ?thesis by blast
qed

text \<open>
  C5, at a resolved script that is not a string. The directory \<^verbatim>\<open>app\<close> holds a manifest
  whose \<^verbatim>\<open>main\<close> is the number 5. The script is truthy and has no extension that the module
  knows, but \<^verbatim>\<open>path.extname\<close> throws a \<^verbatim>\<open>TypeError\<close> on it inside the callback of \<^verbatim>\<open>fs.readFile\<close>:
  the callback of \<^verbatim>\<open>start\<close> is never called with the error for an unknown type of script.
\<close>

theorem nonstring_main_uncaught:
  "start (example_world (files_with (''{'' @ [CHR 0x22] @ ''main'' @ [CHR 0x22] @ '': 5}''))
                        (\<lambda>t. Some (JObj [(''main'', JNum 5)])))
         (Some (empty_pi\<lparr>cwd := Some ''app''\<rparr>)) (Some (UserCb 0)) init_state
   = (init_state, Uncaught TypeError)"
  by (simp add: example_defs)

text \<open>
  C2, at a manifest that is not JSON. The directory \<^verbatim>\<open>app\<close> holds a \<^verbatim>\<open>package.json\<close> with the
  text \<^verbatim>\<open>{\<close>. \<^verbatim>\<open>JSON.parse\<close> throws inside the callback of \<^verbatim>\<open>fs.readFile\<close>, outside the \<^verbatim>\<open>try\<close>
  block: the exception is not caught, and the callback of \<^verbatim>\<open>start\<close> is never called.
\<close>

theorem manifest_parse_failure_uncaught:
  "start (example_world (files_with ''{'') (\<lambda>t. None))
         (Some (empty_pi\<lparr>cwd := Some ''app''\<rparr>)) (Some (UserCb 0)) init_state
   = (init_state, Uncaught SyntaxError)"
  by (simp add: example_defs)

text \<open>A manifest that cannot be read is swallowed, as C2 says of it.\<close>

lemma manifest_read_failure_swallowed:
  "\<not> truthy (str_val (script p0)) \<Longrightarrow> cwd p0 = Some dir \<Longrightarrow> dir \<noteq> [] \<Longrightarrow>
   readFile w (path_join w dir ''package.json'') = Inl err \<Longrightarrow>
   start w (Some p0) cbo st
     = (emit (call_cb (effective_cb cbo) (JStr ''No script given to run'')) st, Completed)"
  by (simp add: start_def get_script_1_def copy_pi_def str_val_def msg_no_script_def)

text \<open>
  C3, at an append that fails. The completion callback reads the identifier \<^verbatim>\<open>m\<close>, which
  nothing declares: a \<^verbatim>\<open>ReferenceError\<close> is thrown from the callback before anything is
  written to the error channel.
\<close>

theorem append_failure_throws:
  "appendFile_done \<lparr>op = [], er = []\<rparr> ''abc'' False (JObj [(''code'', JStr ''EACCES'')])
   = ([], Uncaught (ReferenceError ''m''))"
  by (simp add: appendFile_done_def lookup_ident_def appendFile_scope_def module_scope_def)

text \<open>
  C4, at a call with arguments and an environment. The object that \<^verbatim>\<open>start\<close> builds does
  not take over \<^verbatim>\<open>args\<close> and \<^verbatim>\<open>env\<close>, so the launcher finds neither: the process is spawned
  with the script as its only argument and without the caller's environment.
\<close>

theorem start_drops_args_and_env:
  "effects (fst (start (example_world no_files (\<lambda>t. None))
      (Some (empty_pi\<lparr>script := Some ''srv.py'', args := Some [JStr ''--port''],
                      env := Some [(''A'', ''1'')]\<rparr>))
      (Some (UserCb 0)) init_state))
   = [Launch (Spawned ''python'' [JStr ''srv.py'']
        \<lparr>windowsHide = Some False, silent = None, detached = False,
         opt_cwd = None, opt_env = None\<rparr>),
      Callback (UserCb 0) JUndefined]"
  by (simp add: example_defs)

text \<open>
  C10. No exported operation removes an entry. \<^verbatim>\<open>stop\<close>, \<^verbatim>\<open>restart\<close>, \<^verbatim>\<open>stopall\<close> and
  \<^verbatim>\<open>onstopping\<close> leave the registry as it is; a call of \<^verbatim>\<open>start\<close> that finds a handler appends
  exactly one entry, the one the handler has worked on; any call of \<^verbatim>\<open>start\<close> leaves the
  registry as it is or appends one entry; so the length of the registry never goes down
  in a step, nor over a sequence of steps, with the events of the children among them.
\<close>

theorem registry_never_shrinks:
  "REG (stopByName n st) = REG st
   \<and> REG (restartByName n st) = REG st
   \<and> REG (stopall st) = REG st
   \<and> REG (onstopping hook st) = REG st
   \<and> ((truthy (str_val (script p0)) \<or> truthy (str_val (cwd p0)))
        \<and> get_script_1 w (copy_pi p0 (effective_cb cbo)) = Inr s \<and> truthy s
        \<and> getScriptHandler w s = Inr (Some h) \<longrightarrow>
        REG (fst (start w (Some p0) cbo st))
          = REG st @ [fst (snd (run_handler w h ((copy_pi p0 (effective_cb cbo))\<lparr>x_script := s\<rparr>)))])
   \<and> (REG (fst (start w pio cbo st)) = REG st
        \<or> (\<exists>e. REG (fst (start w pio cbo st)) = REG st @ [e]))
   \<and> length (REG st) \<le> length (REG (step w' x st))
   \<and> length (REG st) \<le> length (REG (run ops st))"
proof -
  have launched: "(truthy (str_val (script p0)) \<or> truthy (str_val (cwd p0)))
        \<and> get_script_1 w (copy_pi p0 (effective_cb cbo)) = Inr s \<and> truthy s
        \<and> getScriptHandler w s = Inr (Some h) \<longrightarrow>
        REG (fst (start w (Some p0) cbo st))
          = REG st @ [fst (snd (run_handler w h ((copy_pi p0 (effective_cb cbo))\<lparr>x_script := s\<rparr>)))]"
  proof
    assume c: "(truthy (str_val (script p0)) \<or> truthy (str_val (cwd p0)))
        \<and> get_script_1 w (copy_pi p0 (effective_cb cbo)) = Inr s \<and> truthy s
        \<and> getScriptHandler w s = Inr (Some h)"
    obtain es e t where rh:
      "run_handler w h ((copy_pi p0 (effective_cb cbo))\<lparr>x_script := s\<rparr>) = (es, e, t)"
      by (cases "run_handler w h ((copy_pi p0 (effective_cb cbo))\<lparr>x_script := s\<rparr>)")
    from c have c1: "truthy (str_val (script p0)) \<or> truthy (str_val (cwd p0))"
      and c2: "get_script_1 w (copy_pi p0 (effective_cb cbo)) = Inr s"
      and c3: "truthy s" and c4: "getScriptHandler w s = Inr (Some h)" by simp_all
    from start_launch [OF c1 c2 c3 c4 rh, of st] rh
    show "REG (fst (start w (Some p0) cbo st))
          = REG st @ [fst (snd (run_handler w h ((copy_pi p0 (effective_cb cbo))\<lparr>x_script := s\<rparr>)))]"
      by (cases t) (simp_all add: emit_def)
  qed
  from launched REG_stopByName [of n st] REG_restartByName [of n st] REG_stopall [of st]
    REG_onstopping [of hook st] start_REG [of w pio cbo st] step_length [of st w' x]
    run_length [of st ops]
  show ?thesis by blast
qed

text \<open>The theorem at the start of a Python script.\<close>

theorem registry_never_shrinks_witness:
  "REG (fst (start (example_world no_files (\<lambda>t. None))
         (Some (empty_pi\<lparr>name := Some ''p'', script := Some ''serve.py''\<rparr>)) None init_state))
   = REG init_state @
       [fst (snd (run_handler (example_world no_files (\<lambda>t. None)) LaunchPythonProcess
          ((copy_pi (empty_pi\<lparr>name := Some ''p'', script := Some ''serve.py''\<rparr>) DefaultCb)
             \<lparr>x_script := JStr ''serve.py''\<rparr>)))]"
  using registry_never_shrinks [where w = "example_world no_files (\<lambda>t. None)"
      and ?p0.0 = "empty_pi\<lparr>name := Some ''p'', script := Some ''serve.py''\<rparr>"
      and cbo = None and s = "JStr ''serve.py''" and h = LaunchPythonProcess and st = init_state]
  by (simp add: empty_pi_def str_val_def effective_cb_def get_script_1_def copy_pi_def
      getScriptHandler_def example_world_def posix_extname_def base_name_def handlers_def)

text \<open>
  C8, as the claim states it, fails: the entry of a Python script whose launch fails (the
  child's \<^verbatim>\<open>error\<close> event reports that the interpreter was not found) is in the registry,
  after the callback has been told of the failure.
\<close>

theorem failed_launch_stays_registered:
  "map name (REG (deliver 0 (ErrorEvent (JObj [(''code'', JStr ''ENOENT'')]))
      (fst (start (example_world no_files (\<lambda>t. None))
             (Some (empty_pi\<lparr>name := Some ''p'', script := Some ''bad.py''\<rparr>))
             (Some (UserCb 0)) init_state))))
   = [Some ''p'']"
  by (simp add: example_defs deliver_def on_error_def pi_flush_def pi_cb_def
      captureOutput_flush_def)

text \<open>
  C8, as the code has it. A call of \<^verbatim>\<open>start\<close> that finds a handler has pushed its entry
  before the handler spawns the process. The entry is therefore in the registry when the
  call of \<^verbatim>\<open>spawn\<close> or \<^verbatim>\<open>fork\<close> throws (then without a child, and without any call of the
  callback), as it is when the call returns a handle. From then on it stays at its index,
  unchanged but for its output buffers, through every later step: the exported operations
  and the events of the children, the \<^verbatim>\<open>error\<close> event of a failed launch among them. The
  registry changes in no other call of \<^verbatim>\<open>start\<close>: one that is rejected before a handler is
  chosen adds no entry.
\<close>

theorem launched_entry_stays_registered:
  "((truthy (str_val (script p0)) \<or> truthy (str_val (cwd p0)))
      \<and> get_script_1 w (copy_pi p0 (effective_cb cbo)) = Inr s \<and> truthy s
      \<and> getScriptHandler w s = Inr (Some h) \<longrightarrow>
      (\<exists>e. REG (fst (start w (Some p0) cbo st)) = REG st @ [e]
         \<and> name e = name p0 \<and> x_script e = s \<and> cb e = Some (effective_cb cbo)
         \<and> (snd (start w (Some p0) cbo st) = Completed \<longrightarrow>
              (\<exists>ch. child e = Some ch
                 \<and> effects (fst (start w (Some p0) cbo st))
                     = effects st @ [Launch ch] @ call_cb (effective_cb cbo) JUndefined))
         \<and> (snd (start w (Some p0) cbo st) \<noteq> Completed \<longrightarrow>
              child e = None \<and> effects (fst (start w (Some p0) cbo st)) = effects st)
         \<and> (\<forall>ops. length (REG st) < length (REG (run ops (fst (start w (Some p0) cbo st))))
               \<and> (REG (run ops (fst (start w (Some p0) cbo st))) ! length (REG st))\<lparr>flush := None\<rparr>
                   = e\<lparr>flush := None\<rparr>)))
   \<and> (REG (fst (start w pio cbo st)) \<noteq> REG st \<longrightarrow>
        (\<exists>q s' h'. pio = Some q
           \<and> (truthy (str_val (script q)) \<or> truthy (str_val (cwd q)))
           \<and> get_script_1 w (copy_pi q (effective_cb cbo)) = Inr s' \<and> truthy s'
           \<and> getScriptHandler w s' = Inr (Some h')))"
proof -
  let ?k = "effective_cb cbo"
  let ?st1 = "fst (start w (Some p0) cbo st)"
  have first: "(truthy (str_val (script p0)) \<or> truthy (str_val (cwd p0)))
      \<and> get_script_1 w (copy_pi p0 ?k) = Inr s \<and> truthy s
      \<and> getScriptHandler w s = Inr (Some h) \<longrightarrow>
      (\<exists>e. REG ?st1 = REG st @ [e]
         \<and> name e = name p0 \<and> x_script e = s \<and> cb e = Some ?k
         \<and> (snd (start w (Some p0) cbo st) = Completed \<longrightarrow>
              (\<exists>ch. child e = Some ch
                 \<and> effects ?st1 = effects st @ [Launch ch] @ call_cb ?k JUndefined))
         \<and> (snd (start w (Some p0) cbo st) \<noteq> Completed \<longrightarrow>
              child e = None \<and> effects ?st1 = effects st)
         \<and> (\<forall>ops. length (REG st) < length (REG (run ops ?st1))
               \<and> (REG (run ops ?st1) ! length (REG st))\<lparr>flush := None\<rparr> = e\<lparr>flush := None\<rparr>))"
  proof
    assume c: "(truthy (str_val (script p0)) \<or> truthy (str_val (cwd p0)))
      \<and> get_script_1 w (copy_pi p0 ?k) = Inr s \<and> truthy s
      \<and> getScriptHandler w s = Inr (Some h)"
    let ?p = "(copy_pi p0 ?k)\<lparr>x_script := s\<rparr>"
    obtain es e t where rh: "run_handler w h ?p = (es, e, t)"
      by (cases "run_handler w h ?p")
    from c have c1: "truthy (str_val (script p0)) \<or> truthy (str_val (cwd p0))"
      and c2: "get_script_1 w (copy_pi p0 ?k) = Inr s"
      and c3: "truthy s" and c4: "getScriptHandler w s = Inr (Some h)" by simp_all
    note sl = start_launch [OF c1 c2 c3 c4 rh, of st]
    note rr = run_handler_result [OF rh]
    have reg: "REG ?st1 = REG st @ [e]"
      using sl by (cases t) (simp_all add: emit_def)
    have ident: "name e = name p0 \<and> x_script e = s \<and> cb e = Some ?k"
      using rr by (simp add: copy_pi_def)
    have ok: "snd (start w (Some p0) cbo st) = Completed \<longrightarrow>
              (\<exists>ch. child e = Some ch
                 \<and> effects ?st1 = effects st @ [Launch ch] @ call_cb ?k JUndefined)"
    proof (cases t)
      case None
      with rr obtain ch where "child e = Some ch" "es = [Launch ch]" by blast
      with sl None show ?thesis by (simp add: emit_def)
    next
      case (Some ex)
      with sl show ?thesis by (simp add: raised_def)
    qed
    have thrown: "snd (start w (Some p0) cbo st) \<noteq> Completed \<longrightarrow>
              child e = None \<and> effects ?st1 = effects st"
    proof (cases t)
      case None
      with sl show ?thesis by simp
    next
      case (Some ex)
      with rr have "child e = None" "es = []" by (simp_all add: copy_pi_def)
      with sl Some show ?thesis by (simp add: emit_def)
    qed
    have i: "length (REG st) < length (REG ?st1)" using reg by simp
    have stays: "length (REG st) < length (REG (run ops ?st1))
          \<and> (REG (run ops ?st1) ! length (REG st))\<lparr>flush := None\<rparr> = e\<lparr>flush := None\<rparr>" for ops
      using run_keeps [OF i, where ops = ops and fl = None] reg by simp
    from reg ident ok thrown stays
    show "\<exists>e. REG ?st1 = REG st @ [e]
         \<and> name e = name p0 \<and> x_script e = s \<and> cb e = Some ?k
         \<and> (snd (start w (Some p0) cbo st) = Completed \<longrightarrow>
              (\<exists>ch. child e = Some ch
                 \<and> effects ?st1 = effects st @ [Launch ch] @ call_cb ?k JUndefined))
         \<and> (snd (start w (Some p0) cbo st) \<noteq> Completed \<longrightarrow>
              child e = None \<and> effects ?st1 = effects st)
         \<and> (\<forall>ops. length (REG st) < length (REG (run ops ?st1))
               \<and> (REG (run ops ?st1) ! length (REG st))\<lparr>flush := None\<rparr> = e\<lparr>flush := None\<rparr>)"
      by blast
  qed
  have second: "REG (fst (start w pio cbo st)) \<noteq> REG st \<longrightarrow>
        (\<exists>q s' h'. pio = Some q
           \<and> (truthy (str_val (script q)) \<or> truthy (str_val (cwd q)))
           \<and> get_script_1 w (copy_pi q ?k) = Inr s' \<and> truthy s'
           \<and> getScriptHandler w s' = Inr (Some h'))"
    using start_cases [of w pio cbo st] by blast
  from first second show ?thesis by blast
qed

text \<open>
  The theorem at a Python script whose launch fails later, through the \<^verbatim>\<open>error\<close> event, and
  at one whose name holds a NUL character, on which \<^verbatim>\<open>spawn\<close> throws: \<^verbatim>\<open>start\<close> throws to its
  caller, and the entry is in the registry without a child.
\<close>

theorem launched_entry_stays_registered_witness:
  "0 < length (REG (run [(example_world no_files (\<lambda>t. None),
                          ChildEvent 0 (ErrorEvent (JObj [(''code'', JStr ''ENOENT'')])))]
       (fst (start (example_world no_files (\<lambda>t. None))
              (Some (empty_pi\<lparr>name := Some ''p'', script := Some ''bad.py''\<rparr>))
              (Some (UserCb 0)) init_state))))
   \<and> snd (start (example_world no_files (\<lambda>t. None))
              (Some (empty_pi\<lparr>name := Some ''p'', script := Some (''bad'' @ [CHR 0x00] @ ''.py'')\<rparr>))
              (Some (UserCb 0)) init_state) = Thrown TypeError
   \<and> map name (REG (fst (start (example_world no_files (\<lambda>t. None))
              (Some (empty_pi\<lparr>name := Some ''p'', script := Some (''bad'' @ [CHR 0x00] @ ''.py'')\<rparr>))
              (Some (UserCb 0)) init_state))) = [Some ''p'']
   \<and> map child (REG (fst (start (example_world no_files (\<lambda>t. None))
              (Some (empty_pi\<lparr>name := Some ''p'', script := Some (''bad'' @ [CHR 0x00] @ ''.py'')\<rparr>))
              (Some (UserCb 0)) init_state))) = [None]
   \<and> effects (fst (start (example_world no_files (\<lambda>t. None))
              (Some (empty_pi\<lparr>name := Some ''p'', script := Some (''bad'' @ [CHR 0x00] @ ''.py'')\<rparr>))
              (Some (UserCb 0)) init_state)) = []
   \<and> REG (fst (start (example_world no_files (\<lambda>t. None))
              (Some (empty_pi\<lparr>name := Some ''p'', script := Some ''bad.py''\<rparr>))
              (Some (UserCb 0)) init_state)) \<noteq> REG init_state"
proof -
  let ?w = "example_world no_files (\<lambda>t. None)"
  let ?good = "empty_pi\<lparr>name := Some ''p'', script := Some ''bad.py''\<rparr>"
  let ?nul = "empty_pi\<lparr>name := Some ''p'', script := Some (''bad'' @ [CHR 0x00] @ ''.py'')\<rparr>"
  let ?c = "Some (UserCb 0)"
  have g: "(truthy (str_val (script ?good)) \<or> truthy (str_val (cwd ?good)))
      \<and> get_script_1 ?w (copy_pi ?good (effective_cb ?c)) = Inr (JStr ''bad.py'')
      \<and> truthy (JStr ''bad.py'')
      \<and> getScriptHandler ?w (JStr ''bad.py'') = Inr (Some LaunchPythonProcess)"
    by (simp add: example_defs)
  have n: "(truthy (str_val (script ?nul)) \<or> truthy (str_val (cwd ?nul)))
      \<and> get_script_1 ?w (copy_pi ?nul (effective_cb ?c)) = Inr (JStr (''bad'' @ [CHR 0x00] @ ''.py''))
      \<and> truthy (JStr (''bad'' @ [CHR 0x00] @ ''.py''))
      \<and> getScriptHandler ?w (JStr (''bad'' @ [CHR 0x00] @ ''.py'')) = Inr (Some LaunchPythonProcess)"
    by (simp add: example_defs)
  have thrown: "snd (start ?w (Some ?nul) ?c init_state) = Thrown TypeError"
    by (simp add: example_defs)
  have changed: "REG (fst (start ?w (Some ?good) ?c init_state)) \<noteq> REG init_state"
    by (simp add: example_defs)
  from launched_entry_stays_registered [where w = ?w and ?p0.0 = ?good and cbo = ?c
      and s = "JStr ''bad.py''" and h = LaunchPythonProcess and st = init_state] g
  have "\<forall>ops. length (REG init_state)
           < length (REG (run ops (fst (start ?w (Some ?good) ?c init_state))))"
    by blast
  then have "length (REG init_state) < length (REG (run [(?w, ChildEvent 0 (ErrorEvent (JObj [(''code'', JStr ''ENOENT'')])))]
       (fst (start ?w (Some ?good) ?c init_state))))"
    by blast
  then have a: "0 < length (REG (run [(?w, ChildEvent 0 (ErrorEvent (JObj [(''code'', JStr ''ENOENT'')])))]
       (fst (start ?w (Some ?good) ?c init_state))))"
    by (metis gr_implies_not0 neq0_conv)
  from launched_entry_stays_registered [where w = ?w and ?p0.0 = ?nul and cbo = ?c
      and s = "JStr (''bad'' @ [CHR 0x00] @ ''.py'')" and h = LaunchPythonProcess
      and st = init_state] n thrown
  obtain e where e: "REG (fst (start ?w (Some ?nul) ?c init_state)) = REG init_state @ [e]"
    "name e = name ?nul" "child e = None"
    "effects (fst (start ?w (Some ?nul) ?c init_state)) = effects init_state"
    by auto
  then have b: "map name (REG (fst (start ?w (Some ?nul) ?c init_state))) = [Some ''p'']"
    and c: "map child (REG (fst (start ?w (Some ?nul) ?c init_state))) = [None]"
    and d: "effects (fst (start ?w (Some ?nul) ?c init_state)) = []"
    by (simp_all add: init_state_def empty_pi_def)
  from launched_entry_stays_registered [where w = ?w and pio = "Some ?good" and cbo = ?c
      and st = init_state] changed
  have "\<exists>q s' h'. Some ?good = Some q
           \<and> (truthy (str_val (script q)) \<or> truthy (str_val (cwd q)))
           \<and> get_script_1 ?w (copy_pi q (effective_cb ?c)) = Inr s' \<and> truthy s'
           \<and> getScriptHandler ?w s' = Inr (Some h')"
    by blast
  with a thrown b c d changed show ?thesis by blast
qed

end
